theory Spec2Isabelle
  imports Complex_Main
begin

text \<open>
  The library \<open>complex.js\<close> (Complex.js v2.4.3) as functions on a store of objects:
  the numbers and the functions of \<open>Math\<close>; the conversion of text to numbers; values,
  objects and the store; \<open>parse\<close> with its tokens; the constructor and the constants;
  the methods of the prototype. The properties follow the definitions.
\<close>

section \<open>Numbers\<close>

text \<open>
  A JavaScript number is a NaN, one of the two infinities, or a finite value. A finite
  value is modelled by the real number it denotes: the rounding of a result to binary64,
  the overflow of a finite result to an infinity and the sign of zero are not
  represented. Every operator below follows ECMAScript on NaN and on the infinities.
\<close>

datatype jsnum = NaN | PInf | NInf | Fin real

fun isNaN_num :: "jsnum \<Rightarrow> bool" where
  "isNaN_num NaN = True"
| "isNaN_num _ = False"

fun isFinite_num :: "jsnum \<Rightarrow> bool" where
  "isFinite_num (Fin _) = True"
| "isFinite_num _ = False"

text \<open>The sign of a number that is not NaN: \<open>True\<close> for a value at or above zero.\<close>

fun nonneg :: "jsnum \<Rightarrow> bool" where
  "nonneg PInf = True"
| "nonneg NInf = False"
| "nonneg (Fin x) = (0 \<le> x)"
| "nonneg NaN = False"

definition signed_inf :: "bool \<Rightarrow> jsnum" where
  "signed_inf pos = (if pos then PInf else NInf)"

instantiation jsnum :: "{plus, minus, uminus, times, inverse, abs, ord}"
begin

fun uminus_jsnum :: "jsnum \<Rightarrow> jsnum" where
  "uminus_jsnum NaN = NaN"
| "uminus_jsnum PInf = NInf"
| "uminus_jsnum NInf = PInf"
| "uminus_jsnum (Fin x) = Fin (- x)"

fun plus_jsnum :: "jsnum \<Rightarrow> jsnum \<Rightarrow> jsnum" where
  "plus_jsnum (Fin x) (Fin y) = Fin (x + y)"
| "plus_jsnum NaN _ = NaN"
| "plus_jsnum _ NaN = NaN"
| "plus_jsnum PInf NInf = NaN"
| "plus_jsnum NInf PInf = NaN"
| "plus_jsnum PInf _ = PInf"
| "plus_jsnum _ PInf = PInf"
| "plus_jsnum NInf _ = NInf"
| "plus_jsnum _ NInf = NInf"

definition minus_jsnum :: "jsnum \<Rightarrow> jsnum \<Rightarrow> jsnum" where
  "minus_jsnum a b = a + (- b)"

fun times_jsnum :: "jsnum \<Rightarrow> jsnum \<Rightarrow> jsnum" where
  "times_jsnum (Fin x) (Fin y) = Fin (x * y)"
| "times_jsnum NaN _ = NaN"
| "times_jsnum _ NaN = NaN"
| "times_jsnum a b =
     (if a = Fin 0 \<or> b = Fin 0 then NaN else signed_inf (nonneg a = nonneg b))"

fun divide_jsnum :: "jsnum \<Rightarrow> jsnum \<Rightarrow> jsnum" where
  "divide_jsnum NaN _ = NaN"
| "divide_jsnum _ NaN = NaN"
| "divide_jsnum (Fin x) (Fin y) =
     (if y = 0 then (if x = 0 then NaN else signed_inf (0 < x)) else Fin (x / y))"
| "divide_jsnum (Fin x) _ = Fin 0"
| "divide_jsnum a (Fin y) = signed_inf (nonneg a = (0 \<le> y))"
| "divide_jsnum _ _ = NaN"

definition inverse_jsnum :: "jsnum \<Rightarrow> jsnum" where
  "inverse_jsnum a = divide (Fin 1) a"

fun abs_jsnum :: "jsnum \<Rightarrow> jsnum" where
  "abs_jsnum NaN = NaN"
| "abs_jsnum PInf = PInf"
| "abs_jsnum NInf = PInf"
| "abs_jsnum (Fin x) = Fin \<bar>x\<bar>"

fun less_jsnum :: "jsnum \<Rightarrow> jsnum \<Rightarrow> bool" where
  "less_jsnum (Fin x) (Fin y) = (x < y)"
| "less_jsnum NaN _ = False"
| "less_jsnum _ NaN = False"
| "less_jsnum PInf _ = False"
| "less_jsnum _ NInf = False"
| "less_jsnum _ _ = True"

definition less_eq_jsnum :: "jsnum \<Rightarrow> jsnum \<Rightarrow> bool" where
  "less_eq_jsnum a b = (a < b \<or> (a = b \<and> a \<noteq> NaN))"

instance ..

end

text \<open>
  The remainder operator \<open>%\<close>: NaN when the dividend is not finite or the divisor is
  zero, the dividend itself when the divisor is infinite, and otherwise the remainder of
  the truncating division, which has the sign of the dividend.
\<close>

definition trunc :: "real \<Rightarrow> int" where
  "trunc x = (if 0 \<le> x then \<lfloor>x\<rfloor> else \<lceil>x\<rceil>)"

fun js_rem :: "jsnum \<Rightarrow> jsnum \<Rightarrow> jsnum" where
  "js_rem (Fin x) (Fin y) = (if y = 0 then NaN else Fin (x - y * of_int (trunc (x / y))))"
| "js_rem (Fin x) PInf = Fin x"
| "js_rem (Fin x) NInf = Fin x"
| "js_rem _ _ = NaN"

subsection \<open>The functions of \<open>Math\<close>\<close>

text \<open>
  ECMAScript fixes the results of the \<open>Math\<close> functions at NaN, at the infinities and
  at zero, and leaves the accuracy at the other arguments to the implementation. The
  model takes the exact real function there.
\<close>

definition Math_PI :: jsnum where "Math_PI = Fin pi"
definition Math_E :: jsnum where "Math_E = Fin (exp 1)"
definition Math_LN2 :: jsnum where "Math_LN2 = Fin (ln 2)"

fun Math_sqrt :: "jsnum \<Rightarrow> jsnum" where
  "Math_sqrt (Fin x) = (if x < 0 then NaN else Fin (sqrt x))"
| "Math_sqrt PInf = PInf"
| "Math_sqrt _ = NaN"

fun Math_exp :: "jsnum \<Rightarrow> jsnum" where
  "Math_exp (Fin x) = Fin (exp x)"
| "Math_exp PInf = PInf"
| "Math_exp NInf = Fin 0"
| "Math_exp NaN = NaN"

fun Math_expm1 :: "jsnum \<Rightarrow> jsnum" where
  "Math_expm1 (Fin x) = Fin (exp x - 1)"
| "Math_expm1 PInf = PInf"
| "Math_expm1 NInf = Fin (- 1)"
| "Math_expm1 NaN = NaN"

fun Math_log :: "jsnum \<Rightarrow> jsnum" where
  "Math_log (Fin x) = (if x < 0 then NaN else if x = 0 then NInf else Fin (ln x))"
| "Math_log PInf = PInf"
| "Math_log _ = NaN"

fun Math_sin :: "jsnum \<Rightarrow> jsnum" where
  "Math_sin (Fin x) = Fin (sin x)"
| "Math_sin _ = NaN"

fun Math_cos :: "jsnum \<Rightarrow> jsnum" where
  "Math_cos (Fin x) = Fin (cos x)"
| "Math_cos _ = NaN"

fun Math_acos :: "jsnum \<Rightarrow> jsnum" where
  "Math_acos (Fin x) = (if \<bar>x\<bar> \<le> 1 then Fin (arccos x) else NaN)"
| "Math_acos _ = NaN"

fun Math_sinh :: "jsnum \<Rightarrow> jsnum" where
  "Math_sinh (Fin x) = Fin (sinh x)"
| "Math_sinh PInf = PInf"
| "Math_sinh NInf = NInf"
| "Math_sinh NaN = NaN"

fun Math_cosh :: "jsnum \<Rightarrow> jsnum" where
  "Math_cosh (Fin x) = Fin (cosh x)"
| "Math_cosh PInf = PInf"
| "Math_cosh NInf = PInf"
| "Math_cosh NaN = NaN"

text \<open>The angle of the point \<open>(x, y)\<close>, in \<open>(-\<pi>, \<pi>]\<close>.\<close>

definition atan2_real :: "real \<Rightarrow> real \<Rightarrow> real" where
  "atan2_real y x =
     (if 0 < x then arctan (y / x)
      else if x < 0 then (if 0 \<le> y then arctan (y / x) + pi else arctan (y / x) - pi)
      else if 0 < y then pi / 2 else if y < 0 then - (pi / 2) else 0)"

fun Math_atan2 :: "jsnum \<Rightarrow> jsnum \<Rightarrow> jsnum" where
  "Math_atan2 NaN _ = NaN"
| "Math_atan2 _ NaN = NaN"
| "Math_atan2 (Fin y) (Fin x) = Fin (atan2_real y x)"
| "Math_atan2 (Fin y) PInf = Fin 0"
| "Math_atan2 (Fin y) NInf = Fin (if 0 \<le> y then pi else - pi)"
| "Math_atan2 PInf (Fin x) = Fin (pi / 2)"
| "Math_atan2 NInf (Fin x) = Fin (- (pi / 2))"
| "Math_atan2 PInf PInf = Fin (pi / 4)"
| "Math_atan2 PInf NInf = Fin (3 * pi / 4)"
| "Math_atan2 NInf PInf = Fin (- (pi / 4))"
| "Math_atan2 NInf NInf = Fin (- (3 * pi / 4))"

definition odd_integer :: "real \<Rightarrow> bool" where
  "odd_integer y = (of_int \<lfloor>y\<rfloor> = y \<and> odd \<lfloor>y\<rfloor>)"

fun Math_pow :: "jsnum \<Rightarrow> jsnum \<Rightarrow> jsnum" where
  "Math_pow _ NaN = NaN"
| "Math_pow b (Fin y) =
     (if y = 0 then Fin 1
      else case b of
        NaN \<Rightarrow> NaN
      | PInf \<Rightarrow> (if 0 < y then PInf else Fin 0)
      | NInf \<Rightarrow> (if 0 < y then (if odd_integer y then NInf else PInf) else Fin 0)
      | Fin x \<Rightarrow>
          (if x = 0 then (if 0 < y then Fin 0 else PInf)
           else if 0 < x then Fin (x powr y)
           else if of_int \<lfloor>y\<rfloor> = y
             then Fin ((if odd \<lfloor>y\<rfloor> then - 1 else 1) * (\<bar>x\<bar> powr y))
           else NaN))"
| "Math_pow NaN _ = NaN"
| "Math_pow b PInf =
     (if Fin 1 < abs b then PInf else if abs b = Fin 1 then NaN else Fin 0)"
| "Math_pow b NInf =
     (if Fin 1 < abs b then Fin 0 else if abs b = Fin 1 then NaN else PInf)"

fun Math_ceil :: "jsnum \<Rightarrow> jsnum" where
  "Math_ceil (Fin x) = Fin (of_int \<lceil>x\<rceil>)"
| "Math_ceil a = a"

fun Math_floor :: "jsnum \<Rightarrow> jsnum" where
  "Math_floor (Fin x) = Fin (of_int \<lfloor>x\<rfloor>)"
| "Math_floor a = a"

fun Math_round :: "jsnum \<Rightarrow> jsnum" where
  "Math_round (Fin x) = Fin (of_int \<lfloor>x + 1 / 2\<rfloor>)"
| "Math_round a = a"

section \<open>Text and numbers\<close>

text \<open>
  A string is a list of code units; the model covers the code units below 256. The
  white space of the numeric grammar there: tab, line feed, vertical tab, form feed,
  carriage return, space and the no-break space. The line terminators, which the
  \<open>.\<close> of a regular expression does not match: line feed and carriage return.
\<close>

definition is_digit :: "char \<Rightarrow> bool" where
  "is_digit c = (c \<in> set ''0123456789'')"

definition digit_val :: "char \<Rightarrow> nat" where
  "digit_val c = of_char c - 48"

definition is_ws :: "char \<Rightarrow> bool" where
  "is_ws c = ((of_char c :: nat) \<in> {9, 10, 11, 12, 13, 32, 160})"

definition is_line_terminator :: "char \<Rightarrow> bool" where
  "is_line_terminator c = ((of_char c :: nat) \<in> {10, 13})"

definition dec_nat :: "string \<Rightarrow> nat" where
  "dec_nat ds = foldl (\<lambda>n c. 10 * n + digit_val c) 0 ds"

definition pow10 :: "int \<Rightarrow> real" where
  "pow10 e = (if 0 \<le> e then 10 ^ nat e else 1 / 10 ^ nat (- e))"

text \<open>
  The exponent part at the head of a string, \<open>e\<close> or \<open>E\<close>, an optional sign and at
  least one digit: its value and the rest of the string.
\<close>

definition exponent_part :: "string \<Rightarrow> (int \<times> string) option" where
  "exponent_part s =
     (case s of
        [] \<Rightarrow> None
      | c # t \<Rightarrow>
          if c = CHR ''e'' \<or> c = CHR ''E'' then
            (let neg = (t \<noteq> [] \<and> hd t = CHR ''-'');
                 t' = (if t \<noteq> [] \<and> (hd t = CHR ''-'' \<or> hd t = CHR ''+'') then tl t else t);
                 ds = takeWhile is_digit t'
             in if ds = [] then None
                else Some ((if neg then - int (dec_nat ds) else int (dec_nat ds)),
                           dropWhile is_digit t'))
          else None)"

text \<open>
  The longest unsigned decimal literal at the head of a string (digits, an optional
  fraction, an optional exponent; or a fraction that starts with the point): its value
  and the rest of the string.
\<close>

definition decimal_prefix :: "string \<Rightarrow> (real \<times> string) option" where
  "decimal_prefix s =
     (let ip = takeWhile is_digit s;
          r1 = dropWhile is_digit s;
          dot = (r1 \<noteq> [] \<and> hd r1 = CHR ''.'' \<and> (ip \<noteq> [] \<or> (tl r1 \<noteq> [] \<and> is_digit (hd (tl r1)))));
          fp = (if dot then takeWhile is_digit (tl r1) else []);
          r2 = (if dot then dropWhile is_digit (tl r1) else r1);
          m = real (dec_nat ip) + real (dec_nat fp) / 10 ^ length fp
      in if ip = [] \<and> fp = [] then None
         else (case exponent_part r2 of
                 Some (e, r3) \<Rightarrow> Some (m * pow10 e, r3)
               | None \<Rightarrow> Some (m, r2)))"

definition strip_sign :: "string \<Rightarrow> bool \<times> string" where
  "strip_sign s =
     (case s of
        [] \<Rightarrow> (False, [])
      | c # t \<Rightarrow> if c = CHR ''-'' then (True, t) else if c = CHR ''+'' then (False, t) else (False, s))"

text \<open>\<open>parseFloat\<close>: leading white space is dropped and what follows the number is ignored.\<close>

definition parseFloat :: "string \<Rightarrow> jsnum" where
  "parseFloat str =
     (case strip_sign (dropWhile is_ws str) of
        (neg, s) \<Rightarrow>
          if take 8 s = ''Infinity'' then signed_inf (\<not> neg)
          else (case decimal_prefix s of
                  None \<Rightarrow> NaN
                | Some (v, _) \<Rightarrow> Fin (if neg then - v else v)))"

text \<open>
  The conversion of a string to a number, as \<open>Number\<close> and the global \<open>isNaN\<close> apply
  it: white space is dropped at both ends, the empty string is zero, and the whole rest
  must be one numeric literal.
\<close>

definition radix_digit :: "nat \<Rightarrow> char \<Rightarrow> nat option" where
  "radix_digit base c =
     (let n = (of_char c :: nat);
          v = (if 48 \<le> n \<and> n \<le> 57 then Some (n - 48)
               else if 97 \<le> n \<and> n \<le> 102 then Some (n - 87)
               else if 65 \<le> n \<and> n \<le> 70 then Some (n - 55)
               else None)
      in case v of None \<Rightarrow> None | Some d \<Rightarrow> if d < base then Some d else None)"

definition radix_nat :: "nat \<Rightarrow> string \<Rightarrow> nat option" where
  "radix_nat base ds =
     (if ds = [] then None
      else foldl (\<lambda>acc c. case (acc, radix_digit base c) of
                            (Some n, Some d) \<Rightarrow> Some (base * n + d)
                          | _ \<Rightarrow> None) (Some 0) ds)"

definition radix_literal :: "string \<Rightarrow> nat option" where
  "radix_literal s =
     (case s of
        z # x # ds \<Rightarrow>
          if z \<noteq> CHR ''0'' then None
          else if x = CHR ''x'' \<or> x = CHR ''X'' then radix_nat 16 ds
          else if x = CHR ''o'' \<or> x = CHR ''O'' then radix_nat 8 ds
          else if x = CHR ''b'' \<or> x = CHR ''B'' then radix_nat 2 ds
          else None
      | _ \<Rightarrow> None)"

definition trim :: "string \<Rightarrow> string" where
  "trim s = rev (dropWhile is_ws (rev (dropWhile is_ws s)))"

definition StringToNumber :: "string \<Rightarrow> jsnum" where
  "StringToNumber str =
     (let t = trim str in
      if t = [] then Fin 0
      else case radix_literal t of
        Some n \<Rightarrow> Fin (real n)
      | None \<Rightarrow>
          (case strip_sign t of
             (neg, s) \<Rightarrow>
               if s = ''Infinity'' then signed_inf (\<not> neg)
               else (case decimal_prefix s of
                       Some (v, []) \<Rightarrow> Fin (if neg then - v else v)
                     | _ \<Rightarrow> NaN)))"

section \<open>Values, objects and the store\<close>

text \<open>
  A value is a primitive or a reference to an object of the store. \<open>Other\<close> stands for
  the values whose \<open>typeof\<close> is none of \<open>object\<close>, \<open>string\<close>, \<open>number\<close>, \<open>boolean\<close>
  and \<open>undefined\<close> (a function, a symbol, a big integer).
\<close>

type_synonym addr = nat

datatype jsval = Undefined | Null | Bool bool | Num jsnum | Str string | Ref addr | Other

text \<open>
  An object of the store is an instance of \<open>Complex\<close> (the scratch record \<open>P\<close> of the
  parser has the same two fields), a plain keyed record, or an array. Objects hold data
  only: no accessor property and no method of their own.
\<close>

datatype obj = Cobj jsval jsval | Plain "(string \<times> jsval) list" | Arr "jsval list"

record state =
  heap :: "addr \<Rightarrow> obj option"
  nxt :: addr

text \<open>
  The only error the library raises is \<open>SyntaxError('Invalid Param')\<close>, from
  \<open>parser_exit\<close>. A run ends with a value, with that error, or \<open>Outside\<close> the model:
  where the source goes on with a field that holds no number (or with a reference to no
  object), and its result depends on conversions that are not modelled.
\<close>

datatype error = InvalidParam

datatype 'a result = Ok 'a | Throw error | Outside

type_synonym 'a prog = "state \<Rightarrow> 'a result \<times> state"

definition ret :: "'a \<Rightarrow> 'a prog" where
  "ret x \<sigma> = (Ok x, \<sigma>)"

definition bind :: "'a prog \<Rightarrow> ('a \<Rightarrow> 'b prog) \<Rightarrow> 'b prog" where
  "bind m f \<sigma> =
     (case m \<sigma> of
        (Ok x, \<sigma>') \<Rightarrow> f x \<sigma>'
      | (Throw e, \<sigma>') \<Rightarrow> (Throw e, \<sigma>')
      | (Outside, \<sigma>') \<Rightarrow> (Outside, \<sigma>'))"

definition parser_exit :: "'a prog" where
  "parser_exit \<sigma> = (Throw InvalidParam, \<sigma>)"

definition outside :: "'a prog" where
  "outside \<sigma> = (Outside, \<sigma>)"

text \<open>The conversion of a primitive to a number; that of an object is not modelled.\<close>

fun ToNumber :: "jsval \<Rightarrow> jsnum option" where
  "ToNumber Undefined = Some NaN"
| "ToNumber Null = Some (Fin 0)"
| "ToNumber (Bool b) = Some (Fin (if b then 1 else 0))"
| "ToNumber (Num n) = Some n"
| "ToNumber (Str s) = Some (StringToNumber s)"
| "ToNumber (Ref _) = None"
| "ToNumber Other = None"

text \<open>
  The \<open>in\<close> operator and the property read, on the three kinds of object, for the keys
  that \<open>parse\<close> asks for. (An instance of \<open>Complex\<close> inherits the methods \<open>abs\<close> and
  \<open>arg\<close> too; \<open>parse\<close> tests \<open>re\<close> and \<open>im\<close> first, which every instance has.)
\<close>

fun has_key :: "obj \<Rightarrow> string \<Rightarrow> bool" where
  "has_key (Cobj _ _) k = (k = ''re'' \<or> k = ''im'')"
| "has_key (Plain kv) k = (k \<in> fst ` set kv)"
| "has_key (Arr xs) k = False"

fun prop_of :: "obj \<Rightarrow> string \<Rightarrow> jsval" where
  "prop_of (Cobj r i) k = (if k = ''re'' then r else if k = ''im'' then i else Undefined)"
| "prop_of (Plain kv) k = (case map_of kv k of Some v \<Rightarrow> v | None \<Rightarrow> Undefined)"
| "prop_of (Arr xs) k =
     (if k = ''length'' then Num (Fin (real (length xs)))
      else if k = ''0'' \<and> 0 < length xs then xs ! 0
      else if k = ''1'' \<and> 1 < length xs then xs ! 1
      else Undefined)"

subsection \<open>The fixed objects\<close>

text \<open>
  The scratch record \<open>P\<close> and the seven constants are created once, in this order, when
  the module is loaded; the model gives them the first eight addresses.
\<close>

definition P_addr :: addr where "P_addr = 0"
definition ZERO_addr :: addr where "ZERO_addr = 1"
definition ONE_addr :: addr where "ONE_addr = 2"
definition I_addr :: addr where "I_addr = 3"
definition PI_addr :: addr where "PI_addr = 4"
definition E_addr :: addr where "E_addr = 5"
definition INFINITY_addr :: addr where "INFINITY_addr = 6"
definition NAN_addr :: addr where "NAN_addr = 7"

definition EPSILON :: jsnum where
  "EPSILON = Fin (1 / 10 ^ 15)"

subsection \<open>Reading and writing the store\<close>

definition set_P :: "jsval \<Rightarrow> jsval \<Rightarrow> state \<Rightarrow> state" where
  "set_P r i \<sigma> = \<sigma>\<lparr>heap := (heap \<sigma>)(P_addr \<mapsto> Cobj r i)\<rparr>"

definition alloc :: "obj \<Rightarrow> addr prog" where
  "alloc ob \<sigma> = (Ok (nxt \<sigma>), \<sigma>\<lparr>heap := (heap \<sigma>)(nxt \<sigma> \<mapsto> ob), nxt := Suc (nxt \<sigma>)\<rparr>)"

text \<open>The two fields of a \<open>Complex\<close> (or of \<open>P\<close>), as they are stored.\<close>

definition fields :: "addr \<Rightarrow> (jsval \<times> jsval) prog" where
  "fields p \<sigma> =
     (case heap \<sigma> p of
        Some (Cobj r i) \<Rightarrow> (Ok (r, i), \<sigma>)
      | _ \<Rightarrow> (Outside, \<sigma>))"

text \<open>The two fields where the arithmetic reads them: both hold numbers.\<close>

definition numbers :: "addr \<Rightarrow> (jsnum \<times> jsnum) prog" where
  "numbers p \<sigma> =
     (case heap \<sigma> p of
        Some (Cobj (Num r) (Num i)) \<Rightarrow> (Ok (r, i), \<sigma>)
      | _ \<Rightarrow> (Outside, \<sigma>))"

section \<open>The parser\<close>

subsection \<open>Tokens\<close>

text \<open>
  The tokens of a string are the matches of
  \<^verbatim>\<open>/\d+\.?\d*e[+-]?\d+|\d+\.?\d*|\.\d+|./g\<close>, from left to right: at a digit, a
  number with its exponent when one follows, and without it otherwise; at a point before
  a digit, a fraction; at any other code unit but a line terminator, that code unit. A
  line terminator matches nothing and is skipped.
\<close>

definition opt_sign :: "string \<Rightarrow> string" where
  "opt_sign t = (case t of [] \<Rightarrow> [] | c # _ \<Rightarrow> if c = CHR ''+'' \<or> c = CHR ''-'' then [c] else [])"

definition exp_token :: "string \<Rightarrow> (string \<times> string) option" where
  "exp_token s =
     (case s of
        [] \<Rightarrow> None
      | c # t \<Rightarrow>
          if c = CHR ''e'' then
            (let sg = opt_sign t;
                 t' = drop (length sg) t;
                 ds = takeWhile is_digit t'
             in if ds = [] then None else Some (c # sg @ ds, dropWhile is_digit t'))
          else None)"

definition opt_dot :: "string \<Rightarrow> string" where
  "opt_dot t = (case t of [] \<Rightarrow> [] | c # _ \<Rightarrow> if c = CHR ''.'' then [c] else [])"

definition next_token :: "string \<Rightarrow> string option \<times> string" where
  "next_token s =
     (case s of
        [] \<Rightarrow> (None, [])
      | c # cs \<Rightarrow>
          if is_digit c then
            (let ip = takeWhile is_digit s;
                 r1 = dropWhile is_digit s;
                 dot = opt_dot r1;
                 r1' = drop (length dot) r1;
                 fp = takeWhile is_digit r1';
                 r2 = dropWhile is_digit r1';
                 lit = ip @ dot @ fp
             in case exp_token r2 of
                  Some (e, r3) \<Rightarrow> (Some (lit @ e), r3)
                | None \<Rightarrow> (Some lit, r2))
          else if c = CHR ''.'' \<and> cs \<noteq> [] \<and> is_digit (hd cs) then
            (Some (c # takeWhile is_digit cs), dropWhile is_digit cs)
          else if is_line_terminator c then (None, cs)
          else (Some [c], cs))"

function tokenize :: "string \<Rightarrow> string list" where
  "tokenize [] = []"
| "tokenize (c # cs) =
     (case fst (next_token (c # cs)) of None \<Rightarrow> [] | Some t \<Rightarrow> [t])
       @ tokenize (snd (next_token (c # cs)))"
  by pat_completeness auto
termination
proof (relation "measure length")
  show "wf (measure length)" by simp
next
  fix c cs
  have exponent: "length r < length s" if "exp_token s = Some (e, r)" for s e r
    using that unfolding exp_token_def Let_def
    by (auto split: list.splits if_splits simp: less_Suc_eq_le
        intro!: order_trans [OF length_dropWhile_le])
  have rest: "length (dropWhile is_digit (drop n (dropWhile is_digit cs))) \<le> length cs" for n
  proof -
    have "length (dropWhile is_digit (drop n (dropWhile is_digit cs)))
          \<le> length (drop n (dropWhile is_digit cs))"
      by (rule length_dropWhile_le)
    also have "\<dots> \<le> length (dropWhile is_digit cs)" by simp
    also have "\<dots> \<le> length cs" by (rule length_dropWhile_le)
    finally show ?thesis .
  qed
  have "length (snd (next_token (c # cs))) < length (c # cs)"
  proof (cases "is_digit c")
    case True
    let ?r2 = "dropWhile is_digit
      (drop (length (opt_dot (dropWhile is_digit cs))) (dropWhile is_digit cs))"
    have b: "length ?r2 \<le> length cs" by (rule rest)
    show ?thesis
    proof (cases "exp_token ?r2")
      case None
      with True b show ?thesis by (simp add: next_token_def Let_def)
    next
      case (Some er)
      obtain e r where er: "er = (e, r)" by (cases er)
      with Some have "length r < length ?r2" by (auto dest: exponent)
      with True b Some er show ?thesis by (simp add: next_token_def Let_def)
    qed
  next
    case False
    have "length (dropWhile is_digit cs) \<le> length cs" by (rule length_dropWhile_le)
    with False show ?thesis by (simp add: next_token_def)
  qed
  then show "(snd (next_token (c # cs)), c # cs) \<in> measure length" by simp
qed

subsection \<open>The scan of the tokens\<close>

definition sign_text :: "nat \<Rightarrow> string" where
  "sign_text mi = (if mi mod 2 \<noteq> 0 then ''-'' else [])"

definition is_blank :: "string \<Rightarrow> bool" where
  "is_blank c = (c = '' '' \<or> c = [CHR 0x09] \<or> c = [CHR 0x0A])"

definition is_i :: "string \<Rightarrow> bool" where
  "is_i c = (c = ''i'' \<or> c = ''I'')"

text \<open>
  The loop over the tokens, with the two accumulators and the two sign counters. The
  first component of the result tells whether \<open>parser_exit\<close> was called; the
  accumulators are returned as they stand at that point.
\<close>

fun scan :: "string list \<Rightarrow> jsnum \<Rightarrow> jsnum \<Rightarrow> nat \<Rightarrow> nat \<Rightarrow> bool \<times> jsnum \<times> jsnum \<times> nat \<times> nat" where
  "scan [] re im pl mi = (False, re, im, pl, mi)"
| "scan (c # ts) re im pl mi =
     (if is_blank c then scan ts re im pl mi
      else if c = ''+'' then scan ts re im (pl + 1) mi
      else if c = ''-'' then scan ts re im pl (mi + 1)
      else if is_i c then
        (if pl + mi = 0 then (True, re, im, pl, mi)
         else case ts of
           [] \<Rightarrow> scan [] re (im + parseFloat (sign_text mi @ ''1'')) 0 0
         | n # ts' \<Rightarrow>
             if n \<noteq> '' '' \<and> \<not> isNaN_num (StringToNumber n)
             then scan ts' re (im + parseFloat (sign_text mi @ n)) 0 0
             else scan ts re (im + parseFloat (sign_text mi @ ''1'')) 0 0)
      else
        (if pl + mi = 0 \<or> isNaN_num (StringToNumber c) then (True, re, im, pl, mi)
         else case ts of
           [] \<Rightarrow> scan [] (re + parseFloat (sign_text mi @ c)) im 0 0
         | n # ts' \<Rightarrow>
             if is_i n
             then scan ts' re (im + parseFloat (sign_text mi @ c)) 0 0
             else scan ts (re + parseFloat (sign_text mi @ c)) im 0 0))"

subsection \<open>\<open>parse\<close>\<close>

text \<open>The polar forms \<open>{abs, arg}\<close> and \<open>{r, phi}\<close>.\<close>

definition polar :: "jsval \<Rightarrow> jsval \<Rightarrow> addr prog" where
  "polar r phi \<sigma> =
     (case (ToNumber r, ToNumber phi) of
        (Some rn, Some pn) \<Rightarrow>
          if \<not> isFinite_num rn \<and> isFinite_num pn then (Ok INFINITY_addr, \<sigma>)
          else (Ok P_addr, set_P (Num (rn * Math_cos pn)) (Num (rn * Math_sin pn)) \<sigma>)
      | _ \<Rightarrow> (Outside, \<sigma>))"

definition parse_object :: "obj \<Rightarrow> addr prog" where
  "parse_object a \<sigma> =
     (if has_key a ''im'' \<and> has_key a ''re'' then
        (Ok P_addr, set_P (prop_of a ''re'') (prop_of a ''im'') \<sigma>)
      else if has_key a ''abs'' \<and> has_key a ''arg'' then
        polar (prop_of a ''abs'') (prop_of a ''arg'') \<sigma>
      else if has_key a ''r'' \<and> has_key a ''phi'' then
        polar (prop_of a ''r'') (prop_of a ''phi'') \<sigma>
      else if prop_of a ''length'' = Num (Fin 2) then
        (Ok P_addr, set_P (prop_of a ''0'') (prop_of a ''1'') \<sigma>)
      else parser_exit \<sigma>)"

definition parse_string :: "string \<Rightarrow> addr prog" where
  "parse_string a \<sigma> =
     (let \<sigma>0 = set_P (Num (Fin 0)) (Num (Fin 0)) \<sigma>;
          tokens = tokenize (filter (\<lambda>c. c \<noteq> CHR ''_'') a)
      in if tokens = [] then parser_exit \<sigma>0
         else case scan tokens (Fin 0) (Fin 0) 1 0 of
           (exited, re, im, pl, mi) \<Rightarrow>
             if exited \<or> 0 < pl + mi then parser_exit (set_P (Num re) (Num im) \<sigma>0)
             else (Ok P_addr, set_P (Num re) (Num im) \<sigma>0))"

text \<open>
  \<open>parse\<close> returns the record that holds the pair: the scratch record \<open>P\<close>, which it
  overwrites, or the constant \<open>INFINITY\<close> for a polar form with an infinite radius.
\<close>

definition parse :: "jsval \<Rightarrow> jsval \<Rightarrow> addr prog" where
  "parse a b \<sigma> =
     (if a = Undefined \<or> a = Null then (Ok P_addr, set_P (Num (Fin 0)) (Num (Fin 0)) \<sigma>)
      else if b \<noteq> Undefined then (Ok P_addr, set_P a b \<sigma>)
      else case a of
        Ref p \<Rightarrow> (case heap \<sigma> p of None \<Rightarrow> (Outside, \<sigma>) | Some ob \<Rightarrow> parse_object ob \<sigma>)
      | Str s \<Rightarrow> parse_string s \<sigma>
      | Num n \<Rightarrow> (Ok P_addr, set_P (Num n) (Num (Fin 0)) \<sigma>)
      | _ \<Rightarrow> parser_exit \<sigma>)"

section \<open>The constructor and the constants\<close>

text \<open>
  \<open>new Complex(a, b)\<close> copies the two fields of the record that \<open>parse\<close> returns into
  the new object. The object enters the store when its fields are written: a
  construction that raises leaves no object behind.
\<close>

definition Complex_new :: "jsval \<Rightarrow> jsval \<Rightarrow> addr prog" where
  "Complex_new a b = bind (parse a b) (\<lambda>z. bind (fields z) (\<lambda>(r, i). alloc (Cobj r i)))"

text \<open>The call with two numbers, as the methods make it.\<close>

definition mk :: "jsnum \<Rightarrow> jsnum \<Rightarrow> addr prog" where
  "mk x y = Complex_new (Num x) (Num y)"

text \<open>The state when the module is loaded: \<open>P\<close>, then the seven constants.\<close>

definition boot :: state where
  "boot = \<lparr>heap = [P_addr \<mapsto> Cobj (Num (Fin 0)) (Num (Fin 0))], nxt = 1\<rparr>"

definition statics :: "unit prog" where
  "statics =
     bind (mk (Fin 0) (Fin 0)) (\<lambda>_.
     bind (mk (Fin 1) (Fin 0)) (\<lambda>_.
     bind (mk (Fin 0) (Fin 1)) (\<lambda>_.
     bind (mk Math_PI (Fin 0)) (\<lambda>_.
     bind (mk Math_E (Fin 0)) (\<lambda>_.
     bind (mk PInf PInf) (\<lambda>_.
     bind (mk NaN NaN) (\<lambda>_. ret ())))))))"

definition init :: state where
  "init = snd (statics boot)"

section \<open>The methods\<close>

text \<open>
  A method takes the address of its receiver. It is modelled where the fields it reads
  hold numbers. A method whose name is that of a constant of the logic carries the
  suffix \<open>_m\<close>.
\<close>

subsection \<open>Helpers of the module\<close>

definition cosm1 :: "jsnum \<Rightarrow> jsnum" where
  "cosm1 x = (let s = Math_sin (Fin (1 / 2) * x) in Fin (- 2) * s * s)"

definition hypot :: "jsnum \<Rightarrow> jsnum \<Rightarrow> jsnum" where
  "hypot x0 y0 =
     (let x1 = abs x0;
          y1 = abs y0;
          x = (if x1 < y1 then y1 else x1);
          y = (if x1 < y1 then x1 else y1)
      in if x < Fin (10 ^ 8) then Math_sqrt (x * x + y * y)
         else (let y' = y / x in x * Math_sqrt (Fin 1 + y' * y')))"

definition logHypot :: "jsnum \<Rightarrow> jsnum \<Rightarrow> jsnum" where
  "logHypot a b =
     (let a' = abs a;
          b' = abs b
      in if a = Fin 0 then Math_log b'
         else if b = Fin 0 then Math_log a'
         else if a' < Fin 3000 \<and> b' < Fin 3000 then Math_log (a * a + b * b) * Fin (1 / 2)
         else (let a2 = a * Fin (1 / 2);
                   b2 = b * Fin (1 / 2)
               in Fin (1 / 2) * Math_log (a2 * a2 + b2 * b2) + Math_LN2))"

text \<open>
  The reciprocal \<open>1 / z\<close>, as \<open>acot\<close>, \<open>asec\<close>, \<open>acsc\<close>, \<open>acoth\<close>, \<open>acsch\<close>
  and \<open>asech\<close> each build it before they delegate: \<open>(a / d, -b / d)\<close> with
  \<open>d = a * a + b * b\<close>, and the quotients by zero where \<open>d\<close> is zero.
\<close>

definition reciprocal :: "jsnum \<Rightarrow> jsnum \<Rightarrow> addr prog" where
  "reciprocal a b =
     (let d = a * a + b * b
      in if d \<noteq> Fin 0 then mk (a / d) ((- b) / d)
         else mk (if a \<noteq> Fin 0 then a / Fin 0 else Fin 0)
                 (if b \<noteq> Fin 0 then (- b) / Fin 0 else Fin 0))"

subsection \<open>The predicates\<close>

definition isNaN :: "addr \<Rightarrow> bool prog" where
  "isNaN this = bind (numbers this) (\<lambda>(re, im). ret (isNaN_num re \<or> isNaN_num im))"

definition isZero :: "addr \<Rightarrow> bool prog" where
  "isZero this = bind (numbers this) (\<lambda>(re, im). ret (im = Fin 0 \<and> re = Fin 0))"

definition isFinite :: "addr \<Rightarrow> bool prog" where
  "isFinite this = bind (numbers this) (\<lambda>(re, im). ret (isFinite_num re \<and> isFinite_num im))"

definition isInfinite :: "addr \<Rightarrow> bool prog" where
  "isInfinite this = bind (isFinite this) (\<lambda>f. ret (\<not> f))"

subsection \<open>Arithmetic\<close>

definition add :: "addr \<Rightarrow> jsval \<Rightarrow> jsval \<Rightarrow> addr prog" where
  "add this a b =
     bind (parse a b) (\<lambda>z.
     bind (isInfinite this) (\<lambda>tInfin.
     bind (numbers z) (\<lambda>(zre, zim).
     bind (numbers this) (\<lambda>(re, im).
       let zInfin = (\<not> (isFinite_num zre \<and> isFinite_num zim))
       in if tInfin \<or> zInfin then
            (if tInfin \<and> zInfin then ret NAN_addr else ret INFINITY_addr)
          else mk (re + zre) (im + zim)))))"

definition sub :: "addr \<Rightarrow> jsval \<Rightarrow> jsval \<Rightarrow> addr prog" where
  "sub this a b =
     bind (parse a b) (\<lambda>z.
     bind (isInfinite this) (\<lambda>tInfin.
     bind (numbers z) (\<lambda>(zre, zim).
     bind (numbers this) (\<lambda>(re, im).
       let zInfin = (\<not> (isFinite_num zre \<and> isFinite_num zim))
       in if tInfin \<or> zInfin then
            (if tInfin \<and> zInfin then ret NAN_addr else ret INFINITY_addr)
          else mk (re - zre) (im - zim)))))"

definition mul :: "addr \<Rightarrow> jsval \<Rightarrow> jsval \<Rightarrow> addr prog" where
  "mul this a b =
     bind (parse a b) (\<lambda>z.
     bind (isInfinite this) (\<lambda>tInfin.
     bind (numbers z) (\<lambda>(zre, zim).
     bind (numbers this) (\<lambda>(re, im).
       let zInfin = (\<not> (isFinite_num zre \<and> isFinite_num zim));
           tIsZero = (re = Fin 0 \<and> im = Fin 0);
           zIsZero = (zre = Fin 0 \<and> zim = Fin 0)
       in if tInfin \<and> zIsZero \<or> zInfin \<and> tIsZero then ret NAN_addr
          else if tInfin \<or> zInfin then ret INFINITY_addr
          else if zim = Fin 0 \<and> im = Fin 0 then mk (re * zre) (Fin 0)
          else mk (re * zre - im * zim) (re * zim + im * zre)))))"

definition div_m :: "addr \<Rightarrow> jsval \<Rightarrow> jsval \<Rightarrow> addr prog" where
  "div_m this a b =
     bind (parse a b) (\<lambda>z.
     bind (isInfinite this) (\<lambda>tInfin.
     bind (numbers z) (\<lambda>(zre, zim).
     bind (numbers this) (\<lambda>(re, im).
       let zInfin = (\<not> (isFinite_num zre \<and> isFinite_num zim));
           tIsZero = (re = Fin 0 \<and> im = Fin 0);
           zIsZero = (zre = Fin 0 \<and> zim = Fin 0)
       in if tIsZero \<and> zIsZero \<or> tInfin \<and> zInfin then ret NAN_addr
          else if zIsZero \<or> tInfin then ret INFINITY_addr
          else if tIsZero \<or> zInfin then ret ZERO_addr
          else if Fin 0 = zim then mk (re / zre) (im / zre)
          else if abs zre < abs zim then
            (let x = zre / zim;
                 t = zre * x + zim
             in mk ((re * x + im) / t) ((im * x - re) / t))
          else
            (let x = zim / zre;
                 t = zim * x + zre
             in mk ((re + im * x) / t) ((im - re * x) / t))))))"

definition pow :: "addr \<Rightarrow> jsval \<Rightarrow> jsval \<Rightarrow> addr prog" where
  "pow this a b =
     bind (parse a b) (\<lambda>z.
     bind (numbers z) (\<lambda>(zre, zim).
     bind (numbers this) (\<lambda>(re, im).
       let tIsZero = (re = Fin 0 \<and> im = Fin 0);
           zIsZero = (zre = Fin 0 \<and> zim = Fin 0);
           general =
             (if tIsZero \<and> Fin 0 < zre then ret ZERO_addr
              else
                (let arg = Math_atan2 im re;
                     loh = logHypot re im;
                     re' = Math_exp (zre * loh - zim * arg);
                     im' = zim * loh + zre * arg
                 in mk (re' * Math_cos im') (re' * Math_sin im')));
           k = js_rem (js_rem zre (Fin 4) + Fin 4) (Fin 4)
       in if zIsZero then ret ONE_addr
          else if zim = Fin 0 then
            (if im = Fin 0 \<and> Fin 0 < re then mk (Math_pow re zre) (Fin 0)
             else if re = Fin 0 then
               (if k = Fin 0 then mk (Math_pow im zre) (Fin 0)
                else if k = Fin 1 then mk (Fin 0) (Math_pow im zre)
                else if k = Fin 2 then mk (- Math_pow im zre) (Fin 0)
                else if k = Fin 3 then mk (Fin 0) (- Math_pow im zre)
                else general)
             else general)
          else general)))"

subsection \<open>Comparison and text\<close>

definition equals :: "addr \<Rightarrow> jsval \<Rightarrow> jsval \<Rightarrow> bool prog" where
  "equals this a b =
     bind (parse a b) (\<lambda>z.
     bind (numbers z) (\<lambda>(zre, zim).
     bind (numbers this) (\<lambda>(re, im).
       ret (abs (zre - re) \<le> EPSILON \<and> abs (zim - im) \<le> EPSILON))))"

text \<open>
  The text of a number. That of a finite number is the shortest decimal text that reads
  back as the same number; it is a parameter of the model.
\<close>

fun NumberToString :: "(real \<Rightarrow> string) \<Rightarrow> jsnum \<Rightarrow> string" where
  "NumberToString shw NaN = ''NaN''"
| "NumberToString shw PInf = ''Infinity''"
| "NumberToString shw NInf = ''-Infinity''"
| "NumberToString shw (Fin x) = shw x"

definition toString :: "(real \<Rightarrow> string) \<Rightarrow> addr \<Rightarrow> string prog" where
  "toString shw this =
     bind (numbers this) (\<lambda>(a0, b0).
     bind (isNaN this) (\<lambda>nan.
       if nan then ret ''NaN''
       else bind (isInfinite this) (\<lambda>infinite.
         if infinite then ret ''Infinity''
         else
           (let a = (if abs a0 < EPSILON then Fin 0 else a0);
                b = (if abs b0 < EPSILON then Fin 0 else b0)
            in if b = Fin 0 then ret ([] @ NumberToString shw a)
               else
                 (let r1 = (if a \<noteq> Fin 0
                            then NumberToString shw a @ '' '' @ (if b < Fin 0 then ''-'' else ''+'') @ '' ''
                            else if b < Fin 0 then ''-'' else []);
                      b1 = (if b < Fin 0 then - b else b);
                      r2 = (if Fin 1 \<noteq> b1 then r1 @ NumberToString shw b1 else r1)
                  in ret (r2 @ ''i''))))))"

subsection \<open>Logarithm, arcus tangent and arcus cotangent\<close>

definition log_m :: "addr \<Rightarrow> addr prog" where
  "log_m this =
     bind (numbers this) (\<lambda>(a, b).
       if b = Fin 0 \<and> Fin 0 < a then mk (Math_log a) (Fin 0)
       else mk (logHypot a b) (Math_atan2 b a))"

definition atan :: "addr \<Rightarrow> addr prog" where
  "atan this =
     bind (numbers this) (\<lambda>(a, b).
       if a = Fin 0 \<and> b = Fin 1 then mk (Fin 0) PInf
       else if a = Fin 0 \<and> b = Fin (- 1) then mk (Fin 0) NInf
       else
         (let d = a * a + (Fin 1 - b) * (Fin 1 - b)
          in bind (mk ((Fin 1 - b * b - a * a) / d) (Fin (- 2) * a / d)) (\<lambda>t0.
             bind (log_m t0) (\<lambda>t1.
             bind (numbers t1) (\<lambda>(t1re, t1im).
               mk (Fin (- (1 / 2)) * t1im) (Fin (1 / 2) * t1re))))))"

definition acot :: "addr \<Rightarrow> addr prog" where
  "acot this =
     bind (numbers this) (\<lambda>(a, b).
       if b = Fin 0 then mk (Math_atan2 (Fin 1) a) (Fin 0)
       else bind (reciprocal a b) atan)"

subsection \<open>Sign, roots and exponentials\<close>

text \<open>
  \<open>cosh\<close> and \<open>sinh\<close> of the module are \<open>Math.cosh\<close> and \<open>Math.sinh\<close>; the
  replacements behind \<open>||\<close> are for an engine without them.
\<close>

definition sign :: "addr \<Rightarrow> addr prog" where
  "sign this =
     bind (numbers this) (\<lambda>(re, im).
       let abs' = hypot re im in mk (re / abs') (im / abs'))"

definition sqrt_m :: "addr \<Rightarrow> addr prog" where
  "sqrt_m this =
     bind (numbers this) (\<lambda>(a, b).
       if b = Fin 0 then
         (if Fin 0 \<le> a then mk (Math_sqrt a) (Fin 0) else mk (Fin 0) (Math_sqrt (- a)))
       else
         (let r = hypot a b;
              re = Math_sqrt (Fin (1 / 2) * (r + abs a));
              im = abs b / (Fin 2 * re)
          in if Fin 0 \<le> a then mk re (if b < Fin 0 then - im else im)
             else mk im (if b < Fin 0 then - re else re)))"

definition exp_m :: "addr \<Rightarrow> addr prog" where
  "exp_m this =
     bind (numbers this) (\<lambda>(re, im).
       let er = Math_exp re
       in if im = Fin 0 then mk er (Fin 0)
          else mk (er * Math_cos im) (er * Math_sin im))"

definition expm1 :: "addr \<Rightarrow> addr prog" where
  "expm1 this =
     bind (numbers this) (\<lambda>(a, b).
       mk (Math_expm1 a * Math_cos b + cosm1 b) (Math_exp a * Math_sin b))"

definition abs_m :: "addr \<Rightarrow> jsnum prog" where
  "abs_m this = bind (numbers this) (\<lambda>(re, im). ret (hypot re im))"

definition arg :: "addr \<Rightarrow> jsnum prog" where
  "arg this = bind (numbers this) (\<lambda>(re, im). ret (Math_atan2 im re))"

subsection \<open>Circular functions\<close>

definition sin_m :: "addr \<Rightarrow> addr prog" where
  "sin_m this =
     bind (numbers this) (\<lambda>(a, b).
       mk (Math_sin a * Math_cosh b) (Math_cos a * Math_sinh b))"

definition cos_m :: "addr \<Rightarrow> addr prog" where
  "cos_m this =
     bind (numbers this) (\<lambda>(a, b).
       mk (Math_cos a * Math_cosh b) ((- Math_sin a) * Math_sinh b))"

definition tan_m :: "addr \<Rightarrow> addr prog" where
  "tan_m this =
     bind (numbers this) (\<lambda>(re, im).
       let a = Fin 2 * re;
           b = Fin 2 * im;
           d = Math_cos a + Math_cosh b
       in mk (Math_sin a / d) (Math_sinh b / d))"

definition cot_m :: "addr \<Rightarrow> addr prog" where
  "cot_m this =
     bind (numbers this) (\<lambda>(re, im).
       let a = Fin 2 * re;
           b = Fin 2 * im;
           d = Math_cos a - Math_cosh b
       in mk ((- Math_sin a) / d) (Math_sinh b / d))"

definition sec :: "addr \<Rightarrow> addr prog" where
  "sec this =
     bind (numbers this) (\<lambda>(a, b).
       let d = Fin (1 / 2) * Math_cosh (Fin 2 * b) + Fin (1 / 2) * Math_cos (Fin 2 * a)
       in mk (Math_cos a * Math_cosh b / d) (Math_sin a * Math_sinh b / d))"

definition csc :: "addr \<Rightarrow> addr prog" where
  "csc this =
     bind (numbers this) (\<lambda>(a, b).
       let d = Fin (1 / 2) * Math_cosh (Fin 2 * b) - Fin (1 / 2) * Math_cos (Fin 2 * a)
       in mk (Math_sin a * Math_cosh b / d) ((- Math_cos a) * Math_sinh b / d))"

subsection \<open>Inverse circular functions\<close>

definition asin :: "addr \<Rightarrow> addr prog" where
  "asin this =
     bind (numbers this) (\<lambda>(a, b).
     bind (mk (b * b - a * a + Fin 1) (Fin (- 2) * a * b)) (\<lambda>s1.
     bind (sqrt_m s1) (\<lambda>t1.
     bind (numbers t1) (\<lambda>(t1re, t1im).
     bind (mk (t1re - b) (t1im + a)) (\<lambda>s2.
     bind (log_m s2) (\<lambda>t2.
     bind (numbers t2) (\<lambda>(t2re, t2im).
       mk t2im (- t2re))))))))"

definition acos :: "addr \<Rightarrow> addr prog" where
  "acos this =
     bind (numbers this) (\<lambda>(a, b).
     bind (mk (b * b - a * a + Fin 1) (Fin (- 2) * a * b)) (\<lambda>s1.
     bind (sqrt_m s1) (\<lambda>t1.
     bind (numbers t1) (\<lambda>(t1re, t1im).
     bind (mk (t1re - b) (t1im + a)) (\<lambda>s2.
     bind (log_m s2) (\<lambda>t2.
     bind (numbers t2) (\<lambda>(t2re, t2im).
       mk (Math_PI / Fin 2 - t2im) t2re)))))))"

definition asec :: "addr \<Rightarrow> addr prog" where
  "asec this =
     bind (numbers this) (\<lambda>(a, b).
       if a = Fin 0 \<and> b = Fin 0 then mk (Fin 0) PInf
       else bind (reciprocal a b) acos)"

definition acsc :: "addr \<Rightarrow> addr prog" where
  "acsc this =
     bind (numbers this) (\<lambda>(a, b).
       if a = Fin 0 \<and> b = Fin 0 then mk (Math_PI / Fin 2) PInf
       else bind (reciprocal a b) asin)"

subsection \<open>Hyperbolic functions\<close>

definition sinh_m :: "addr \<Rightarrow> addr prog" where
  "sinh_m this =
     bind (numbers this) (\<lambda>(a, b).
       mk (Math_sinh a * Math_cos b) (Math_cosh a * Math_sin b))"

definition cosh_m :: "addr \<Rightarrow> addr prog" where
  "cosh_m this =
     bind (numbers this) (\<lambda>(a, b).
       mk (Math_cosh a * Math_cos b) (Math_sinh a * Math_sin b))"

definition tanh_m :: "addr \<Rightarrow> addr prog" where
  "tanh_m this =
     bind (numbers this) (\<lambda>(re, im).
       let a = Fin 2 * re;
           b = Fin 2 * im;
           d = Math_cosh a + Math_cos b
       in mk (Math_sinh a / d) (Math_sin b / d))"

definition coth :: "addr \<Rightarrow> addr prog" where
  "coth this =
     bind (numbers this) (\<lambda>(re, im).
       let a = Fin 2 * re;
           b = Fin 2 * im;
           d = Math_cosh a - Math_cos b
       in mk (Math_sinh a / d) ((- Math_sin b) / d))"

definition csch :: "addr \<Rightarrow> addr prog" where
  "csch this =
     bind (numbers this) (\<lambda>(a, b).
       let d = Math_cos (Fin 2 * b) - Math_cosh (Fin 2 * a)
       in mk (Fin (- 2) * Math_sinh a * Math_cos b / d) (Fin 2 * Math_cosh a * Math_sin b / d))"

definition sech :: "addr \<Rightarrow> addr prog" where
  "sech this =
     bind (numbers this) (\<lambda>(a, b).
       let d = Math_cos (Fin 2 * b) + Math_cosh (Fin 2 * a)
       in mk (Fin 2 * Math_cosh a * Math_cos b / d) (Fin (- 2) * Math_sinh a * Math_sin b / d))"

subsection \<open>Inverse hyperbolic functions\<close>

definition asinh :: "addr \<Rightarrow> addr prog" where
  "asinh this =
     bind (numbers this) (\<lambda>(a, b).
       if b = Fin 0 then
         (if a = Fin 0 then mk (Fin 0) (Fin 0)
          else
            (let x = abs a;
                 r = Math_log (x + Math_sqrt (x * x + Fin 1))
             in mk (if a < Fin 0 then - r else r) (Fin 0)))
       else
         (let re2 = a * a - b * b + Fin 1;
              im2 = Fin 2 * a * b
          in bind (mk re2 im2) (\<lambda>s.
             bind (sqrt_m s) (\<lambda>t.
             bind (numbers t) (\<lambda>(tre, tim).
             bind (mk (a + tre) (b + tim)) log_m)))))"

definition acosh :: "addr \<Rightarrow> addr prog" where
  "acosh this =
     bind (numbers this) (\<lambda>(a, b).
       if b = Fin 0 then
         (if Fin 1 < a then
            mk (Math_log (a + Math_sqrt (a - Fin 1) * Math_sqrt (a + Fin 1))) (Fin 0)
          else if a < Fin (- 1) then
            (let t = Math_sqrt (a * a - Fin 1) in mk (Math_log ((- a) + t)) Math_PI)
          else mk (Fin 0) (Math_acos a))
       else
         bind (mk (a - Fin 1) b) (\<lambda>s1.
         bind (sqrt_m s1) (\<lambda>t1.
         bind (mk (a + Fin 1) b) (\<lambda>s2.
         bind (sqrt_m s2) (\<lambda>t2.
         bind (numbers t1) (\<lambda>(t1re, t1im).
         bind (numbers t2) (\<lambda>(t2re, t2im).
         bind (mk (a + t1re * t2re - t1im * t2im) (b + t1re * t2im + t1im * t2re)) log_m)))))))"

definition atanh :: "addr \<Rightarrow> addr prog" where
  "atanh this =
     bind (numbers this) (\<lambda>(a, b).
       if b = Fin 0 then
         (if a = Fin 0 then mk (Fin 0) (Fin 0)
          else if a = Fin 1 then mk PInf (Fin 0)
          else if a = Fin (- 1) then mk NInf (Fin 0)
          else if Fin (- 1) < a \<and> a < Fin 1 then
            mk (Fin (1 / 2) * Math_log ((Fin 1 + a) / (Fin 1 - a))) (Fin 0)
          else if Fin 1 < a then
            (let t = (a + Fin 1) / (a - Fin 1)
             in mk (Fin (1 / 2) * Math_log t) ((- Math_PI) / Fin 2))
          else
            (let t = (Fin 1 + a) / (Fin 1 - a)
             in mk (Fin (1 / 2) * Math_log (- t)) (Math_PI / Fin 2)))
       else
         (let oneMinus = Fin 1 - a;
              onePlus = Fin 1 + a;
              d = oneMinus * oneMinus + b * b
          in if d = Fin 0 then
               mk (if a \<noteq> Fin (- 1) then a / Fin 0 else Fin 0)
                  (if b \<noteq> Fin 0 then b / Fin 0 else Fin 0)
             else
               (let xr = (onePlus * oneMinus - b * b) / d;
                    xi = (b * oneMinus + onePlus * b) / d
                in mk (logHypot xr xi / Fin 2) (Math_atan2 xi xr / Fin 2))))"

definition acoth :: "addr \<Rightarrow> addr prog" where
  "acoth this =
     bind (numbers this) (\<lambda>(a, b).
       if a = Fin 0 \<and> b = Fin 0 then mk (Fin 0) (Math_PI / Fin 2)
       else bind (reciprocal a b) atanh)"

definition acsch :: "addr \<Rightarrow> addr prog" where
  "acsch this =
     bind (numbers this) (\<lambda>(a, b).
       if b = Fin 0 then
         (if a = Fin 0 then mk PInf (Fin 0)
          else
            (let inv = Fin 1 / a
             in mk (Math_log (inv + Math_sqrt (inv * inv + Fin 1))) (Fin 0)))
       else bind (reciprocal a b) asinh)"

definition asech :: "addr \<Rightarrow> addr prog" where
  "asech this =
     bind (numbers this) (\<lambda>(a, b).
     bind (isZero this) (\<lambda>zero.
       if zero then ret INFINITY_addr
       else bind (reciprocal a b) acosh))"

subsection \<open>Reciprocal, conjugate, negation and rounding\<close>

definition inverse_m :: "addr \<Rightarrow> addr prog" where
  "inverse_m this =
     bind (isZero this) (\<lambda>zero.
       if zero then ret INFINITY_addr
       else bind (isInfinite this) (\<lambda>infinite.
         if infinite then ret ZERO_addr
         else bind (numbers this) (\<lambda>(a, b).
           let d = a * a + b * b in mk (a / d) ((- b) / d))))"

definition conjugate :: "addr \<Rightarrow> addr prog" where
  "conjugate this = bind (numbers this) (\<lambda>(re, im). mk re (- im))"

definition neg :: "addr \<Rightarrow> addr prog" where
  "neg this = bind (numbers this) (\<lambda>(re, im). mk (- re) (- im))"

text \<open>
  \<open>Math.pow(10, places || 0)\<close>: a missing, null, false, zero, NaN or empty \<open>places\<close>
  counts as zero.
\<close>

definition falsy :: "jsval \<Rightarrow> bool" where
  "falsy v = (v \<in> {Undefined, Null, Bool False, Num (Fin 0), Num NaN, Str []})"

definition scale :: "jsval \<Rightarrow> jsnum prog" where
  "scale places =
     (case ToNumber (if falsy places then Num (Fin 0) else places) of
        Some n \<Rightarrow> ret (Math_pow (Fin 10) n)
      | None \<Rightarrow> outside)"

definition ceil :: "addr \<Rightarrow> jsval \<Rightarrow> addr prog" where
  "ceil this places0 =
     bind (scale places0) (\<lambda>places.
     bind (numbers this) (\<lambda>(re, im).
       mk (Math_ceil (re * places) / places) (Math_ceil (im * places) / places)))"

definition floor_m :: "addr \<Rightarrow> jsval \<Rightarrow> addr prog" where
  "floor_m this places0 =
     bind (scale places0) (\<lambda>places.
     bind (numbers this) (\<lambda>(re, im).
       mk (Math_floor (re * places) / places) (Math_floor (im * places) / places)))"

definition round_m :: "addr \<Rightarrow> jsval \<Rightarrow> addr prog" where
  "round_m this places0 =
     bind (scale places0) (\<lambda>places.
     bind (numbers this) (\<lambda>(re, im).
       mk (Math_round (re * places) / places) (Math_round (im * places) / places)))"

subsection \<open>Copies and views\<close>

definition clone :: "addr \<Rightarrow> addr prog" where
  "clone this = bind (numbers this) (\<lambda>(re, im). mk re im)"

definition toVector :: "addr \<Rightarrow> addr prog" where
  "toVector this = bind (numbers this) (\<lambda>(re, im). alloc (Arr [Num re, Num im]))"

definition valueOf :: "addr \<Rightarrow> jsval prog" where
  "valueOf this = bind (numbers this) (\<lambda>(re, im). ret (if im = Fin 0 then Num re else Null))"

subsection \<open>The public operations\<close>

datatype operation =
    M_sign | M_add | M_sub | M_mul | M_div | M_pow | M_sqrt | M_exp | M_expm1 | M_log
  | M_abs | M_arg | M_sin | M_cos | M_tan | M_cot | M_sec | M_csc
  | M_asin | M_acos | M_atan | M_acot | M_asec | M_acsc
  | M_sinh | M_cosh | M_tanh | M_coth | M_csch | M_sech
  | M_asinh | M_acosh | M_atanh | M_acoth | M_acsch | M_asech
  | M_inverse | M_conjugate | M_neg | M_ceil | M_floor | M_round
  | M_equals | M_clone | M_toString | M_toVector | M_valueOf
  | M_isNaN | M_isZero | M_isFinite | M_isInfinite

definition as_ref :: "addr prog \<Rightarrow> jsval prog" where
  "as_ref m = bind m (\<lambda>p. ret (Ref p))"

definition as_num :: "jsnum prog \<Rightarrow> jsval prog" where
  "as_num m = bind m (\<lambda>n. ret (Num n))"

definition as_bool :: "bool prog \<Rightarrow> jsval prog" where
  "as_bool m = bind m (\<lambda>t. ret (Bool t))"

definition as_str :: "string prog \<Rightarrow> jsval prog" where
  "as_str m = bind m (\<lambda>t. ret (Str t))"

text \<open>
  The call \<open>this.m(a, b)\<close> of a public operation, with the value it returns. An
  operation without parameters ignores \<open>a\<close> and \<open>b\<close>; the rounding operations take
  \<open>places\<close> as \<open>a\<close>.
\<close>

fun call :: "(real \<Rightarrow> string) \<Rightarrow> operation \<Rightarrow> addr \<Rightarrow> jsval \<Rightarrow> jsval \<Rightarrow> jsval prog" where
  "call shw M_sign this a b = as_ref (sign this)"
| "call shw M_add this a b = as_ref (add this a b)"
| "call shw M_sub this a b = as_ref (sub this a b)"
| "call shw M_mul this a b = as_ref (mul this a b)"
| "call shw M_div this a b = as_ref (div_m this a b)"
| "call shw M_pow this a b = as_ref (pow this a b)"
| "call shw M_sqrt this a b = as_ref (sqrt_m this)"
| "call shw M_exp this a b = as_ref (exp_m this)"
| "call shw M_expm1 this a b = as_ref (expm1 this)"
| "call shw M_log this a b = as_ref (log_m this)"
| "call shw M_abs this a b = as_num (abs_m this)"
| "call shw M_arg this a b = as_num (arg this)"
| "call shw M_sin this a b = as_ref (sin_m this)"
| "call shw M_cos this a b = as_ref (cos_m this)"
| "call shw M_tan this a b = as_ref (tan_m this)"
| "call shw M_cot this a b = as_ref (cot_m this)"
| "call shw M_sec this a b = as_ref (sec this)"
| "call shw M_csc this a b = as_ref (csc this)"
| "call shw M_asin this a b = as_ref (asin this)"
| "call shw M_acos this a b = as_ref (acos this)"
| "call shw M_atan this a b = as_ref (atan this)"
| "call shw M_acot this a b = as_ref (acot this)"
| "call shw M_asec this a b = as_ref (asec this)"
| "call shw M_acsc this a b = as_ref (acsc this)"
| "call shw M_sinh this a b = as_ref (sinh_m this)"
| "call shw M_cosh this a b = as_ref (cosh_m this)"
| "call shw M_tanh this a b = as_ref (tanh_m this)"
| "call shw M_coth this a b = as_ref (coth this)"
| "call shw M_csch this a b = as_ref (csch this)"
| "call shw M_sech this a b = as_ref (sech this)"
| "call shw M_asinh this a b = as_ref (asinh this)"
| "call shw M_acosh this a b = as_ref (acosh this)"
| "call shw M_atanh this a b = as_ref (atanh this)"
| "call shw M_acoth this a b = as_ref (acoth this)"
| "call shw M_acsch this a b = as_ref (acsch this)"
| "call shw M_asech this a b = as_ref (asech this)"
| "call shw M_inverse this a b = as_ref (inverse_m this)"
| "call shw M_conjugate this a b = as_ref (conjugate this)"
| "call shw M_neg this a b = as_ref (neg this)"
| "call shw M_ceil this a b = as_ref (ceil this a)"
| "call shw M_floor this a b = as_ref (floor_m this a)"
| "call shw M_round this a b = as_ref (round_m this a)"
| "call shw M_equals this a b = as_bool (equals this a b)"
| "call shw M_clone this a b = as_ref (clone this)"
| "call shw M_toString this a b = as_str (toString shw this)"
| "call shw M_toVector this a b = as_ref (toVector this)"
| "call shw M_valueOf this a b = valueOf this"
| "call shw M_isNaN this a b = as_bool (isNaN this)"
| "call shw M_isZero this a b = as_bool (isZero this)"
| "call shw M_isFinite this a b = as_bool (isFinite this)"
| "call shw M_isInfinite this a b = as_bool (isInfinite this)"

section \<open>Notions of the specification\<close>

text \<open>The object that a run returns, in the state it leaves.\<close>

definition made :: "addr result \<times> state \<Rightarrow> obj option" where
  "made run = (case run of (Ok p, \<sigma>') \<Rightarrow> heap \<sigma>' p | _ \<Rightarrow> None)"

text \<open>
  What a run that started in \<open>\<sigma>\<close> returned: an object that was there before, or a new
  object with its two fields.
\<close>

datatype shape = Const addr | Fresh jsval jsval | NoValue

definition returned :: "state \<Rightarrow> addr result \<times> state \<Rightarrow> shape" where
  "returned \<sigma> run =
     (case run of
        (Ok p, \<sigma>') \<Rightarrow>
          if p < nxt \<sigma> then Const p
          else (case heap \<sigma>' p of Some (Cobj r i) \<Rightarrow> Fresh r i | _ \<Rightarrow> NoValue)
      | _ \<Rightarrow> NoValue)"

subsection \<open>Classification\<close>

text \<open>
  The data model of the specification: a value is infinite when it is not finite and not
  NaN. The test that the binary operations apply to their operand is weaker: some
  component is not finite.
\<close>

definition infinite_value :: "jsnum \<times> jsnum \<Rightarrow> bool" where
  "infinite_value v =
     (\<not> (isFinite_num (fst v) \<and> isFinite_num (snd v)) \<and> \<not> (isNaN_num (fst v) \<or> isNaN_num (snd v)))"

definition not_finite :: "jsnum \<times> jsnum \<Rightarrow> bool" where
  "not_finite v = (\<not> (isFinite_num (fst v) \<and> isFinite_num (snd v)))"

subsection \<open>Division\<close>

text \<open>
  The cases of \<open>div\<close> in the order of the specification, for a receiver \<open>t\<close>, an operand
  \<open>z\<close> and a notion \<open>opinf\<close> of an infinite operand; the receiver is infinite in the
  sense of the data model. Nothing is said where no case applies.
\<close>

definition div_claimed :: "(jsnum \<times> jsnum \<Rightarrow> bool) \<Rightarrow> jsnum \<times> jsnum \<Rightarrow> jsnum \<times> jsnum \<Rightarrow> shape \<Rightarrow> bool" where
  "div_claimed opinf t z s =
     (let tIsZero = (t = (Fin 0, Fin 0));
          zIsZero = (z = (Fin 0, Fin 0))
      in if tIsZero \<and> zIsZero \<or> infinite_value t \<and> opinf z then s = Const NAN_addr
         else if zIsZero \<or> infinite_value t then s = Const INFINITY_addr
         else if tIsZero \<or> opinf z then s = Const ZERO_addr
         else if snd z = Fin 0 then s = Fresh (Num (fst t / fst z)) (Num (snd t / fst z))
         else True)"

subsection \<open>Recognized input\<close>







subsection \<open>Text of a value\<close>

text \<open>A component within \<open>EPSILON\<close> of zero, as \<open>toString\<close> tests it, reads as zero.\<close>

definition snapped :: "jsnum \<Rightarrow> jsnum" where
  "snapped x = (if abs x < EPSILON then Fin 0 else x)"

text \<open>
  The text of a value with the components \<open>a\<close> and \<open>b\<close>, as the specification lays it
  out: the literals for a NaN and for an infinite value; else, on the snapped
  components, the real part alone when the imaginary part is zero, and otherwise the
  real part if it is not zero, the sign token, the magnitude of the imaginary part unless
  it is one, and \<open>i\<close>.
\<close>

definition rendering :: "(real \<Rightarrow> string) \<Rightarrow> jsnum \<Rightarrow> jsnum \<Rightarrow> string" where
  "rendering shw a0 b0 =
     (if isNaN_num a0 \<or> isNaN_num b0 then ''NaN''
      else if \<not> (isFinite_num a0 \<and> isFinite_num b0) then ''Infinity''
      else
        (let a = snapped a0;
             b = snapped b0;
             magnitude = (if abs b = Fin 1 then [] else NumberToString shw (abs b))
         in if b = Fin 0 then NumberToString shw a
            else if a \<noteq> Fin 0 then
              NumberToString shw a @ (if b < Fin 0 then '' - '' else '' + '') @ magnitude @ ''i''
            else (if b < Fin 0 then ''-'' else []) @ magnitude @ ''i''))"

subsection \<open>Frame\<close>

text \<open>
  Every object that was in the store before the run, the scratch record \<open>P\<close> apart, is
  the same after it.
\<close>

definition unchanged :: "state \<Rightarrow> state \<Rightarrow> bool" where
  "unchanged \<sigma> \<sigma>' =
     (nxt \<sigma> \<le> nxt \<sigma>' \<and> (\<forall>p. p < nxt \<sigma> \<and> p \<noteq> P_addr \<longrightarrow> heap \<sigma>' p = heap \<sigma> p))"

definition framed :: "'a prog \<Rightarrow> bool" where
  "framed m = (\<forall>\<sigma> r \<sigma>'. m \<sigma> = (r, \<sigma>') \<longrightarrow> unchanged \<sigma> \<sigma>')"

definition newly_created :: "state \<Rightarrow> state \<Rightarrow> addr \<Rightarrow> bool" where
  "newly_created \<sigma> \<sigma>' q = (nxt \<sigma> \<le> q \<and> q < nxt \<sigma>' \<and> heap \<sigma>' q \<noteq> None)"

text \<open>The constants that operations return as they are.\<close>

definition shared :: "addr set" where
  "shared = {NAN_addr, INFINITY_addr, ZERO_addr, ONE_addr}"

definition yields :: "addr prog \<Rightarrow> bool" where
  "yields m =
     (framed m \<and>
      (\<forall>\<sigma> q \<sigma>'. m \<sigma> = (Ok q, \<sigma>') \<longrightarrow> newly_created \<sigma> \<sigma>' q \<or> q \<in> shared))"

text \<open>
  The frame property as the specification states it, and with the shared constants
  allowed as results.
\<close>

definition frame_claimed :: "state \<Rightarrow> jsval result \<times> state \<Rightarrow> bool" where
  "frame_claimed \<sigma> run =
     (unchanged \<sigma> (snd run) \<and>
      (\<forall>q. fst run = Ok (Ref q) \<longrightarrow> newly_created \<sigma> (snd run) q))"

definition frame_amended :: "state \<Rightarrow> jsval result \<times> state \<Rightarrow> bool" where
  "frame_amended \<sigma> run =
     (unchanged \<sigma> (snd run) \<and>
      (\<forall>q. fst run = Ok (Ref q) \<longrightarrow> newly_created \<sigma> (snd run) q \<or> q \<in> shared))"

section \<open>Basic facts of the store\<close>

lemmas addr_defs = P_addr_def ZERO_addr_def ONE_addr_def I_addr_def PI_addr_def E_addr_def
  INFINITY_addr_def NAN_addr_def

lemma mk_run:
  "mk x y \<sigma> = (Ok (nxt \<sigma>),
     \<sigma>\<lparr>heap := (heap \<sigma>)(P_addr \<mapsto> Cobj (Num x) (Num y), nxt \<sigma> \<mapsto> Cobj (Num x) (Num y)),
       nxt := Suc (nxt \<sigma>)\<rparr>)"
  by (simp add: mk_def Complex_new_def parse_def bind_def set_P_def fields_def alloc_def)

lemma init_nxt: "nxt init = 8"
  by (simp add: init_def statics_def boot_def mk_run bind_def ret_def)

lemma init_heap:
  "heap init = [P_addr \<mapsto> Cobj (Num NaN) (Num NaN),
     ZERO_addr \<mapsto> Cobj (Num (Fin 0)) (Num (Fin 0)),
     ONE_addr \<mapsto> Cobj (Num (Fin 1)) (Num (Fin 0)),
     I_addr \<mapsto> Cobj (Num (Fin 0)) (Num (Fin 1)),
     PI_addr \<mapsto> Cobj (Num Math_PI) (Num (Fin 0)),
     E_addr \<mapsto> Cobj (Num Math_E) (Num (Fin 0)),
     INFINITY_addr \<mapsto> Cobj (Num PInf) (Num PInf),
     NAN_addr \<mapsto> Cobj (Num NaN) (Num NaN)]"
  by (auto simp add: init_def statics_def boot_def mk_run bind_def ret_def addr_defs fun_eq_iff)

lemma set_P_other: "p \<noteq> P_addr \<Longrightarrow> heap (set_P r i \<sigma>) p = heap \<sigma> p"
  by (simp add: set_P_def)

lemma set_P_nxt: "nxt (set_P r i \<sigma>) = nxt \<sigma>"
  by (simp add: set_P_def)

lemma polar_frame:
  "polar r phi \<sigma> = (res, \<sigma>') \<Longrightarrow>
   nxt \<sigma>' = nxt \<sigma> \<and> (\<forall>p. p \<noteq> P_addr \<longrightarrow> heap \<sigma>' p = heap \<sigma> p)"
  by (auto simp: polar_def set_P_other set_P_nxt split: option.splits if_splits)

lemma parse_object_frame:
  "parse_object ob \<sigma> = (res, \<sigma>') \<Longrightarrow>
   nxt \<sigma>' = nxt \<sigma> \<and> (\<forall>p. p \<noteq> P_addr \<longrightarrow> heap \<sigma>' p = heap \<sigma> p)"
  unfolding parse_object_def
  by (auto simp: set_P_other set_P_nxt parser_exit_def split: if_splits dest: polar_frame)

lemma parse_string_frame:
  "parse_string s \<sigma> = (res, \<sigma>') \<Longrightarrow>
   nxt \<sigma>' = nxt \<sigma> \<and> (\<forall>p. p \<noteq> P_addr \<longrightarrow> heap \<sigma>' p = heap \<sigma> p)"
  unfolding parse_string_def Let_def
  by (auto simp: set_P_other set_P_nxt parser_exit_def split: if_splits prod.splits)

lemma parse_frame:
  "parse a b \<sigma> = (res, \<sigma>') \<Longrightarrow>
   nxt \<sigma>' = nxt \<sigma> \<and> (\<forall>p. p \<noteq> P_addr \<longrightarrow> heap \<sigma>' p = heap \<sigma> p)"
  unfolding parse_def
  by (auto simp: set_P_other set_P_nxt parser_exit_def split: if_splits jsval.splits option.splits
           dest: parse_object_frame parse_string_frame)

lemma numbers_run:
  "heap \<sigma> p = Some (Cobj (Num r) (Num i)) \<Longrightarrow> numbers p \<sigma> = (Ok (r, i), \<sigma>)"
  by (simp add: numbers_def)

lemma isNaN_run:
  "heap \<sigma> p = Some (Cobj (Num r) (Num i)) \<Longrightarrow>
   isNaN p \<sigma> = (Ok (isNaN_num r \<or> isNaN_num i), \<sigma>)"
  by (simp add: isNaN_def bind_def numbers_run ret_def)

lemma isFinite_run:
  "heap \<sigma> p = Some (Cobj (Num r) (Num i)) \<Longrightarrow>
   isFinite p \<sigma> = (Ok (isFinite_num r \<and> isFinite_num i), \<sigma>)"
  by (simp add: isFinite_def bind_def numbers_run ret_def)

lemma isInfinite_run:
  "heap \<sigma> p = Some (Cobj (Num r) (Num i)) \<Longrightarrow>
   isInfinite p \<sigma> = (Ok (\<not> (isFinite_num r \<and> isFinite_num i)), \<sigma>)"
  by (simp add: isInfinite_def bind_def isFinite_run ret_def)

lemma returned_const: "p < nxt \<sigma> \<Longrightarrow> returned \<sigma> (Ok p, \<sigma>') = Const p"
  by (simp add: returned_def)

lemma returned_mk: "nxt \<sigma> \<le> nxt \<sigma>1 \<Longrightarrow> returned \<sigma> (mk x y \<sigma>1) = Fresh (Num x) (Num y)"
  by (simp add: returned_def mk_run)

lemma made_mk: "made (mk x y \<sigma>) = Some (Cobj (Num x) (Num y))"
  by (simp add: made_def mk_run)

section \<open>The scenarios of the documentation\<close>

text \<open>
  The values of \<open>Complex("4+3i").add("-3-2i")\<close>, \<open>Complex(-9).sqrt()\<close>,
  \<open>Complex("4+2i").div("1+i")\<close>, \<open>Complex("i").pow("0")\<close> and \<open>Complex(0).inverse()\<close>,
  each computed from the state in which the module was loaded.
\<close>

lemmas text_defs = parse_def parse_string_def set_P_def next_token_def exp_token_def
  opt_dot_def opt_sign_def is_digit_def is_line_terminator_def Let_def is_i_def is_blank_def
  parser_exit_def StringToNumber_def trim_def is_ws_def radix_literal_def strip_sign_def
  decimal_prefix_def exponent_part_def parseFloat_def sign_text_def dec_nat_def digit_val_def

lemmas run_defs = Complex_new_def bind_def ret_def fields_def numbers_def alloc_def mk_def
  made_def isInfinite_def isFinite_def isZero_def

lemma scenario_add:
  "made (bind (Complex_new (Str ''4+3i'') Undefined) (\<lambda>p. add p (Str ''-3-2i'') Undefined) init)
   = Some (Cobj (Num (Fin 1)) (Num (Fin 1)))"
  by (simp add: text_defs run_defs add_def init_heap init_nxt addr_defs)

lemma scenario_sqrt:
  "made (bind (Complex_new (Num (Fin (- 9))) Undefined) sqrt_m init)
   = Some (Cobj (Num (Fin 0)) (Num (Fin 3)))"
  by (simp add: text_defs run_defs sqrt_m_def init_heap init_nxt addr_defs less_eq_jsnum_def)

lemma scenario_div:
  "made (bind (Complex_new (Str ''4+2i'') Undefined) (\<lambda>p. div_m p (Str ''1+i'') Undefined) init)
   = Some (Cobj (Num (Fin 3)) (Num (Fin (- 1))))"
  by (simp add: text_defs run_defs div_m_def init_heap init_nxt addr_defs minus_jsnum_def)

lemma scenario_pow:
  "fst (bind (Complex_new (Str ''i'') Undefined) (\<lambda>p. pow p (Str ''0'') Undefined) init)
   = Ok ONE_addr"
  by (simp add: text_defs run_defs pow_def init_heap init_nxt addr_defs)

lemma scenario_inverse:
  "fst (bind (Complex_new (Num (Fin 0)) Undefined) inverse_m init) = Ok INFINITY_addr"
  by (simp add: text_defs run_defs inverse_m_def init_heap init_nxt addr_defs)


section \<open>Classification\<close>

text \<open>
  C2. The specification takes a value to be infinite when it is not finite and not NaN,
  so that the constant \<open>NAN\<close> is not infinite. \<open>isInfinite\<close> is the negation of
  \<open>isFinite\<close>: on the constant \<open>NAN\<close>, which \<open>isNaN\<close> reports as NaN and which is not
  infinite in the sense of the specification, it answers true.
\<close>

theorem isInfinite_of_NAN:
  "fst (isInfinite NAN_addr init) = Ok True
   \<and> fst (isNaN NAN_addr init) = Ok True
   \<and> \<not> infinite_value (NaN, NaN)"
  by (simp add: isInfinite_run isNaN_run init_heap addr_defs infinite_value_def)

section \<open>Addition and subtraction\<close>

text \<open>
  C10. For a receiver with two finite fields and an operand that parses to a pair with a
  NaN component, \<open>add\<close> and \<open>sub\<close> return the constant \<open>INFINITY\<close>: the test of the
  operand, that some component is not finite, holds of a NaN component.
\<close>

theorem add_sub_NaN_operand:
  assumes "this \<noteq> P_addr"
    and "heap \<sigma> this = Some (Cobj (Num re) (Num im))"
    and "isFinite_num re" and "isFinite_num im"
    and "parse a b \<sigma> = (Ok z, \<sigma>1)"
    and "heap \<sigma>1 z = Some (Cobj (Num zre) (Num zim))"
    and "isNaN_num zre \<or> isNaN_num zim"
  shows "add this a b \<sigma> = (Ok INFINITY_addr, \<sigma>1) \<and> sub this a b \<sigma> = (Ok INFINITY_addr, \<sigma>1)"
proof -
  from assms(1,2,5) have t: "heap \<sigma>1 this = Some (Cobj (Num re) (Num im))"
    by (auto dest: parse_frame)
  from assms(7) have nf: "\<not> (isFinite_num zre \<and> isFinite_num zim)"
    by (cases zre; cases zim) auto
  show ?thesis
    using assms(3,4,5,6) t nf
    by (simp add: add_def sub_def bind_def isInfinite_run numbers_run ret_def)
qed

theorem add_sub_NaN_operand_witness:
  "add ONE_addr (Num NaN) Undefined init = (Ok INFINITY_addr, set_P (Num NaN) (Num (Fin 0)) init)
   \<and> sub ONE_addr (Num NaN) Undefined init = (Ok INFINITY_addr, set_P (Num NaN) (Num (Fin 0)) init)"
  using add_sub_NaN_operand [of ONE_addr init "Fin 1" "Fin 0" "Num NaN" Undefined P_addr
      "set_P (Num NaN) (Num (Fin 0)) init" NaN "Fin 0"]
  by (simp add: init_heap addr_defs parse_def set_P_def)

section \<open>Division\<close>

text \<open>
  C1, as the specification states it, with an infinite operand one that is not finite and
  not NaN: false. The quotient of one by the number NaN is the constant \<open>ZERO\<close>, where
  the operand \<open>(NaN, 0)\<close> is neither zero nor infinite and has the imaginary part zero, so
  that the componentwise quotient, a new object, is due.
\<close>

theorem div_NaN_operand:
  "\<not> div_claimed infinite_value (Fin 1, Fin 0) (NaN, Fin 0)
       (returned init (div_m ONE_addr (Num NaN) Undefined init))
   \<and> fst (div_m ONE_addr (Num NaN) Undefined init) = Ok ZERO_addr"
  by (simp add: div_m_def bind_def parse_def set_P_def isInfinite_def isFinite_def numbers_def
      ret_def init_heap init_nxt addr_defs div_claimed_def infinite_value_def returned_def)

text \<open>
  C1, amended. For a receiver \<open>t\<close> without a NaN component and an operand \<open>z\<close>, where
  an infinite operand is one with a component that is not finite (a NaN component
  included): if \<open>t\<close> and \<open>z\<close> are zero, or both are infinite, the result is the constant
  \<open>NAN\<close>; else if \<open>z\<close> is zero or \<open>t\<close> is infinite, the constant \<open>INFINITY\<close>; else if
  \<open>t\<close> is zero or \<open>z\<close> is infinite, the constant \<open>ZERO\<close>; else, when the imaginary part
  of \<open>z\<close> is zero, a new object with each component of \<open>t\<close> divided by the real part of
  \<open>z\<close>.
\<close>

theorem div_cases:
  assumes "this \<noteq> P_addr"
    and "heap \<sigma> this = Some (Cobj (Num re) (Num im))"
    and "\<not> isNaN_num re" and "\<not> isNaN_num im"
    and "parse a b \<sigma> = (Ok z, \<sigma>1)"
    and "heap \<sigma>1 z = Some (Cobj (Num zre) (Num zim))"
    and "NAN_addr < nxt \<sigma>"
  shows "div_claimed not_finite (re, im) (zre, zim) (returned \<sigma> (div_m this a b \<sigma>))"
proof -
  from assms(1,2,5) have t: "heap \<sigma>1 this = Some (Cobj (Num re) (Num im))"
    by (auto dest: parse_frame)
  from assms(5) have n: "nxt \<sigma>1 = nxt \<sigma>" by (auto dest: parse_frame)
  from assms(3,4) have i: "infinite_value (re, im) = (\<not> (isFinite_num re \<and> isFinite_num im))"
    by (simp add: infinite_value_def)
  have c: "ZERO_addr < nxt \<sigma>" "INFINITY_addr < nxt \<sigma>"
    using assms(7) by (simp_all add: addr_defs)
  show ?thesis
    using assms(5,6,7) t n c
    by (auto simp add: div_m_def bind_def isInfinite_run numbers_run ret_def div_claimed_def i
        not_finite_def returned_const returned_mk Let_def)
qed

theorem div_cases_witness:
  "returned init (div_m I_addr (Num (Fin 2)) Undefined init) = Fresh (Num (Fin 0)) (Num (Fin (1 / 2)))
   \<and> returned init (div_m ONE_addr (Num PInf) Undefined init) = Const ZERO_addr
   \<and> returned init (div_m ONE_addr (Num (Fin 0)) Undefined init) = Const INFINITY_addr
   \<and> returned init (div_m ZERO_addr (Num (Fin 0)) Undefined init) = Const NAN_addr"
  using div_cases [of I_addr init "Fin 0" "Fin 1" "Num (Fin 2)" Undefined P_addr
      "set_P (Num (Fin 2)) (Num (Fin 0)) init" "Fin 2" "Fin 0"]
    div_cases [of ONE_addr init "Fin 1" "Fin 0" "Num PInf" Undefined P_addr
      "set_P (Num PInf) (Num (Fin 0)) init" PInf "Fin 0"]
    div_cases [of ONE_addr init "Fin 1" "Fin 0" "Num (Fin 0)" Undefined P_addr
      "set_P (Num (Fin 0)) (Num (Fin 0)) init" "Fin 0" "Fin 0"]
    div_cases [of ZERO_addr init "Fin 0" "Fin 0" "Num (Fin 0)" Undefined P_addr
      "set_P (Num (Fin 0)) (Num (Fin 0)) init" "Fin 0" "Fin 0"]
  by (simp add: init_heap init_nxt addr_defs parse_def set_P_def div_claimed_def not_finite_def
      infinite_value_def)

section \<open>Power\<close>

text \<open>
  C4. For every receiver and every operand that parses to exactly \<open>(0, 0)\<close>, \<open>pow\<close>
  returns the constant \<open>ONE\<close>, which it leaves as it is; the receiver may be zero.
\<close>

theorem pow_zero_exponent:
  assumes "this \<noteq> P_addr"
    and "heap \<sigma> this = Some (Cobj (Num re) (Num im))"
    and "parse a b \<sigma> = (Ok z, \<sigma>1)"
    and "heap \<sigma>1 z = Some (Cobj (Num (Fin 0)) (Num (Fin 0)))"
  shows "pow this a b \<sigma> = (Ok ONE_addr, \<sigma>1) \<and> heap \<sigma>1 ONE_addr = heap \<sigma> ONE_addr"
proof -
  from assms(1,2,3) have t: "heap \<sigma>1 this = Some (Cobj (Num re) (Num im))"
    by (auto dest: parse_frame)
  from assms(3) have "heap \<sigma>1 ONE_addr = heap \<sigma> ONE_addr"
    by (auto dest: parse_frame simp: addr_defs)
  then show ?thesis
    using assms(3,4) t
    by (simp add: pow_def bind_def numbers_run ret_def Let_def)
qed

theorem pow_zero_exponent_witness:
  "fst (pow ZERO_addr (Str ''0'') Undefined init) = Ok ONE_addr
   \<and> heap (snd (pow ZERO_addr (Str ''0'') Undefined init)) ONE_addr
       = Some (Cobj (Num (Fin 1)) (Num (Fin 0)))"
  using pow_zero_exponent [of ZERO_addr init "Fin 0" "Fin 0" "Str ''0''" Undefined P_addr
      "set_P (Num (Fin 0)) (Num (Fin 0)) (set_P (Num (Fin 0)) (Num (Fin 0)) init)"]
  by (simp add: init_heap addr_defs parse_def parse_string_def set_P_def next_token_def
      exp_token_def opt_dot_def opt_sign_def is_digit_def is_line_terminator_def Let_def
      is_i_def is_blank_def parser_exit_def StringToNumber_def trim_def is_ws_def
      radix_literal_def strip_sign_def decimal_prefix_def exponent_part_def parseFloat_def
      sign_text_def dec_nat_def digit_val_def)

section \<open>Equality\<close>

lemma abs_minus_swap: "abs (a - b) = abs (b - (a::jsnum))"
  by (cases a; cases b) (simp_all add: minus_jsnum_def)

lemma parse_complex:
  "heap \<sigma> u = Some (Cobj r i) \<Longrightarrow> parse (Ref u) Undefined \<sigma> = (Ok P_addr, set_P r i \<sigma>)"
  by (simp add: parse_def parse_object_def)

lemma equals_run:
  assumes "this \<noteq> P_addr"
    and "heap \<sigma> this = Some (Cobj (Num re) (Num im))"
    and "parse a b \<sigma> = (Ok z, \<sigma>1)"
    and "heap \<sigma>1 z = Some (Cobj (Num zre) (Num zim))"
  shows "equals this a b \<sigma> = (Ok (abs (re - zre) \<le> EPSILON \<and> abs (im - zim) \<le> EPSILON), \<sigma>1)"
proof -
  from assms(1,2,3) have t: "heap \<sigma>1 this = Some (Cobj (Num re) (Num im))"
    by (auto dest: parse_frame)
  show ?thesis
    using assms(3,4) t
    by (simp add: equals_def bind_def numbers_run ret_def abs_minus_swap [of zre re]
        abs_minus_swap [of zim im])
qed

lemma equals_complex:
  assumes "this \<noteq> P_addr"
    and "heap \<sigma> this = Some (Cobj (Num re) (Num im))"
    and "heap \<sigma> u = Some (Cobj (Num ure) (Num uim))"
  shows "fst (equals this (Ref u) Undefined \<sigma>)
         = Ok (abs (re - ure) \<le> EPSILON \<and> abs (im - uim) \<le> EPSILON)"
  using equals_run [OF assms(1,2) parse_complex [OF assms(3)], of ure uim]
  by (simp add: set_P_def)

lemma finite_self_close: "isFinite_num x \<Longrightarrow> abs (x - x) \<le> EPSILON"
  by (cases x) (simp_all add: minus_jsnum_def less_eq_jsnum_def EPSILON_def)

text \<open>
  C5. \<open>equals\<close> returns true iff the absolute differences of the real parts and of the
  imaginary parts are both at most \<open>EPSILON\<close>, which is \<open>1e-15\<close>. So a value with two
  finite fields equals itself, the answer is the same with receiver and operand
  exchanged, and the constant \<open>INFINITY\<close> does not equal itself.
\<close>

theorem equals_tolerance:
  assumes "this \<noteq> P_addr"
    and "heap \<sigma> this = Some (Cobj (Num re) (Num im))"
    and "parse a b \<sigma> = (Ok z, \<sigma>1)"
    and "heap \<sigma>1 z = Some (Cobj (Num zre) (Num zim))"
    and "u \<noteq> P_addr"
    and "heap \<sigma> u = Some (Cobj (Num ure) (Num uim))"
  shows "equals this a b \<sigma> = (Ok (abs (re - zre) \<le> EPSILON \<and> abs (im - zim) \<le> EPSILON), \<sigma>1)
    \<and> EPSILON = Fin (1 / 10 ^ 15)
    \<and> (isFinite_num re \<and> isFinite_num im \<longrightarrow> fst (equals this (Ref this) Undefined \<sigma>) = Ok True)
    \<and> fst (equals this (Ref u) Undefined \<sigma>) = fst (equals u (Ref this) Undefined \<sigma>)
    \<and> fst (equals INFINITY_addr (Ref INFINITY_addr) Undefined init) = Ok False"
proof (intro conjI impI)
  show "equals this a b \<sigma> = (Ok (abs (re - zre) \<le> EPSILON \<and> abs (im - zim) \<le> EPSILON), \<sigma>1)"
    using assms(1-4) by (rule equals_run)
  show "EPSILON = Fin (1 / 10 ^ 15)" by (simp add: EPSILON_def)
  show "fst (equals this (Ref this) Undefined \<sigma>) = Ok True"
    if "isFinite_num re \<and> isFinite_num im"
    using that equals_complex [OF assms(1,2) assms(2)] by (simp add: finite_self_close)
  show "fst (equals this (Ref u) Undefined \<sigma>) = fst (equals u (Ref this) Undefined \<sigma>)"
    using equals_complex [OF assms(1,2) assms(6)] equals_complex [OF assms(5,6) assms(2)]
    by (simp add: abs_minus_swap [of re ure] abs_minus_swap [of im uim])
  show "fst (equals INFINITY_addr (Ref INFINITY_addr) Undefined init) = Ok False"
    using equals_complex [of INFINITY_addr init PInf PInf INFINITY_addr PInf PInf]
    by (simp add: init_heap addr_defs minus_jsnum_def less_eq_jsnum_def)
qed

theorem equals_tolerance_witness:
  "fst (equals ONE_addr (Num (Fin 1)) Undefined init) = Ok True
   \<and> fst (equals ONE_addr (Ref ONE_addr) Undefined init) = Ok True
   \<and> fst (equals ONE_addr (Ref I_addr) Undefined init)
       = fst (equals I_addr (Ref ONE_addr) Undefined init)
   \<and> fst (equals INFINITY_addr (Ref INFINITY_addr) Undefined init) = Ok False"
  using equals_tolerance [of ONE_addr init "Fin 1" "Fin 0" "Num (Fin 1)" Undefined P_addr
      "set_P (Num (Fin 1)) (Num (Fin 0)) init" "Fin 1" "Fin 0" I_addr "Fin 0" "Fin 1"]
  by (simp add: init_heap addr_defs parse_def set_P_def minus_jsnum_def less_eq_jsnum_def
      EPSILON_def)


section \<open>Text of a value\<close>

lemma finite_negate: "isFinite_num b \<Longrightarrow> (if b < Fin 0 then - b else b) = abs b"
  by (cases b) simp_all

text \<open>
  C6. \<open>toString\<close> renders a value with a NaN component as \<open>NaN\<close> and any other value
  that is not finite as \<open>Infinity\<close>. Otherwise a component whose absolute value is below
  \<open>EPSILON\<close> is taken as zero; when the imaginary part is then not zero, the real part
  is rendered only if it is not zero, the sign comes as a token and the imaginary part as
  its magnitude, and a magnitude of exactly one is left out before the \<open>i\<close>.
\<close>

theorem toString_rendering:
  assumes "heap \<sigma> this = Some (Cobj (Num a0) (Num b0))"
  shows "toString shw this \<sigma> = (Ok (rendering shw a0 b0), \<sigma>)"
proof -
  have s: "isFinite_num b0 \<Longrightarrow> isFinite_num (snapped b0)"
    by (simp add: snapped_def)
  show ?thesis
    using assms s
    by (simp add: toString_def bind_def numbers_run isNaN_run isInfinite_run ret_def
        rendering_def Let_def snapped_def [symmetric] finite_negate)
qed

theorem toString_rendering_witness:
  "fst (toString (\<lambda>x. ''1'') I_addr init) = Ok ''i''
   \<and> fst (toString (\<lambda>x. ''1'') ONE_addr init) = Ok ''1''
   \<and> fst (toString (\<lambda>x. ''1'') NAN_addr init) = Ok ''NaN''
   \<and> fst (toString (\<lambda>x. ''1'') INFINITY_addr init) = Ok ''Infinity''"
  using toString_rendering [of init I_addr "Fin 0" "Fin 1" "\<lambda>x. ''1''"]
    toString_rendering [of init ONE_addr "Fin 1" "Fin 0" "\<lambda>x. ''1''"]
    toString_rendering [of init NAN_addr NaN NaN "\<lambda>x. ''1''"]
    toString_rendering [of init INFINITY_addr PInf PInf "\<lambda>x. ''1''"]
  by (simp add: init_heap addr_defs rendering_def snapped_def EPSILON_def)

section \<open>Construction from two arguments\<close>




section \<open>Arcus cotangent\<close>

lemma atan2_one_range: "0 < atan2_real 1 x \<and> atan2_real 1 x < pi"
proof -
  have l: "- (pi / 2) < arctan (1 / x)" by (rule arctan_lbound)
  have u: "arctan (1 / x) < pi / 2" by (rule arctan_ubound)
  have p: "0 < pi" by (rule pi_gt_zero)
  consider "0 < x" | "x < 0" | "x = 0" by linarith
  then show ?thesis
  proof cases
    case 1
    then have e: "atan2_real 1 x = arctan (1 / x)" by (simp add: atan2_real_def)
    from 1 have "0 < arctan (1 / x)" by simp
    with u p show ?thesis unfolding e by linarith
  next
    case 2
    then have e: "atan2_real 1 x = arctan (1 / x) + pi" by (simp add: atan2_real_def)
    from 2 have "arctan (1 / x) < 0" by simp
    with l p show ?thesis unfolding e by linarith
  next
    case 3
    then have e: "atan2_real 1 x = pi / 2" by (simp add: atan2_real_def)
    from p show ?thesis unfolding e by linarith
  qed
qed

lemma atan2_one_values:
  "atan2_real 1 1 = pi / 4" "atan2_real 1 0 = pi / 2" "atan2_real 1 (- 1) = 3 * pi / 4"
  by (simp_all add: atan2_real_def arctan_one arctan_minus)

text \<open>
  C8. On a receiver with the imaginary part zero, \<open>acot\<close> returns a new object with the
  real part \<open>atan2(1, re)\<close> and the imaginary part zero. For a finite \<open>re\<close> this real
  part lies strictly between zero and \<open>\<pi>\<close>; it is \<open>\<pi>/4\<close> at one, \<open>\<pi>/2\<close> at zero and
  \<open>3\<pi>/4\<close> at minus one.
\<close>

theorem acot_real_axis:
  assumes "heap \<sigma> this = Some (Cobj (Num re) (Num (Fin 0)))"
  shows "made (acot this \<sigma>) = Some (Cobj (Num (Math_atan2 (Fin 1) re)) (Num (Fin 0)))
    \<and> (\<forall>x. re = Fin x \<longrightarrow> (\<exists>y. Math_atan2 (Fin 1) re = Fin y \<and> 0 < y \<and> y < pi))
    \<and> (re = Fin 1 \<longrightarrow> made (acot this \<sigma>) = Some (Cobj (Num (Fin (pi / 4))) (Num (Fin 0))))
    \<and> (re = Fin 0 \<longrightarrow> made (acot this \<sigma>) = Some (Cobj (Num (Fin (pi / 2))) (Num (Fin 0))))
    \<and> (re = Fin (- 1) \<longrightarrow> made (acot this \<sigma>) = Some (Cobj (Num (Fin (3 * pi / 4))) (Num (Fin 0))))"
proof -
  have m: "made (acot this \<sigma>) = Some (Cobj (Num (Math_atan2 (Fin 1) re)) (Num (Fin 0)))"
    using assms by (simp add: acot_def bind_def numbers_run made_mk)
  show ?thesis
    using m atan2_one_range by (auto simp: atan2_one_values)
qed

theorem acot_real_axis_witness:
  "made (acot ONE_addr init) = Some (Cobj (Num (Fin (pi / 4))) (Num (Fin 0)))
   \<and> made (acot ZERO_addr init) = Some (Cobj (Num (Fin (pi / 2))) (Num (Fin 0)))"
  using acot_real_axis [of init ONE_addr "Fin 1"] acot_real_axis [of init ZERO_addr "Fin 0"]
  by (simp add: init_heap addr_defs atan2_one_values)

section \<open>Construction and the error\<close>








lemma Complex_new_ok:
  assumes "fst (Complex_new a b \<sigma>) = Ok p"
  shows "p = nxt \<sigma> \<and> (\<exists>r i. made (Complex_new a b \<sigma>) = Some (Cobj r i))"
proof (cases "parse a b \<sigma>")
  case (Pair r \<sigma>1)
  from Pair have n: "nxt \<sigma>1 = nxt \<sigma>" by (auto dest: parse_frame)
  from assms Pair n show ?thesis
    by (cases r)
      (auto simp: Complex_new_def bind_def fields_def alloc_def made_def
        split: option.splits obj.splits)
qed






section \<open>Frame\<close>

lemma unchanged_refl: "unchanged \<sigma> \<sigma>"
  by (simp add: unchanged_def)

lemma unchanged_trans: "unchanged \<sigma> \<sigma>1 \<Longrightarrow> unchanged \<sigma>1 \<sigma>2 \<Longrightarrow> unchanged \<sigma> \<sigma>2"
  by (auto simp: unchanged_def)

lemma framed_ret: "framed (ret x)"
  by (simp add: framed_def ret_def unchanged_refl)

lemma framed_outside: "framed outside"
  by (simp add: framed_def outside_def unchanged_refl)

lemma framed_numbers: "framed (numbers p)"
  by (auto simp: framed_def numbers_def unchanged_refl split: option.splits obj.splits jsval.splits)

lemma framed_fields: "framed (fields p)"
  by (auto simp: framed_def fields_def unchanged_refl split: option.splits obj.splits)

lemma framed_parse: "framed (parse a b)"
  unfolding framed_def unchanged_def by (auto dest: parse_frame)

lemma framed_mk: "framed (mk x y)"
  by (auto simp: framed_def mk_run unchanged_def)

lemma framed_bind: "framed m \<Longrightarrow> (\<And>x. framed (f x)) \<Longrightarrow> framed (bind m f)"
  unfolding framed_def
proof (intro allI impI)
  fix \<sigma> r \<sigma>'
  assume m: "\<forall>\<sigma> r \<sigma>'. m \<sigma> = (r, \<sigma>') \<longrightarrow> unchanged \<sigma> \<sigma>'"
    and f: "\<And>x. \<forall>\<sigma> r \<sigma>'. f x \<sigma> = (r, \<sigma>') \<longrightarrow> unchanged \<sigma> \<sigma>'"
    and run: "bind m f \<sigma> = (r, \<sigma>')"
  obtain r1 \<sigma>1 where a: "m \<sigma> = (r1, \<sigma>1)" by (cases "m \<sigma>")
  with m have u: "unchanged \<sigma> \<sigma>1" by blast
  show "unchanged \<sigma> \<sigma>'"
  proof (cases r1)
    case (Ok x)
    with a run have "f x \<sigma>1 = (r, \<sigma>')" by (simp add: bind_def)
    with f have "unchanged \<sigma>1 \<sigma>'" by blast
    with u show ?thesis by (rule unchanged_trans)
  next
    case (Throw e)
    with a run u show ?thesis by (simp add: bind_def)
  next
    case Outside
    with a run u show ?thesis by (simp add: bind_def)
  qed
qed

lemma framed_if: "framed m \<Longrightarrow> framed n \<Longrightarrow> framed (if c then m else n)"
  by simp

lemma framed_split: "(\<And>a b. framed (f a b)) \<Longrightarrow> framed (case p of (a, b) \<Rightarrow> f a b)"
  by (cases p) simp

lemma yields_framed: "yields m \<Longrightarrow> framed m"
  by (simp add: yields_def)

lemma yields_mk: "yields (mk x y)"
  by (auto simp: yields_def framed_mk mk_run newly_created_def)

lemma yields_alloc: "yields (alloc ob)"
  by (auto simp: yields_def framed_def alloc_def unchanged_def newly_created_def)

lemma yields_shared: "q \<in> shared \<Longrightarrow> yields (ret q)"
  by (simp add: yields_def framed_ret ret_def)

lemma shared_simps:
  "NAN_addr \<in> shared" "INFINITY_addr \<in> shared" "ZERO_addr \<in> shared" "ONE_addr \<in> shared"
  by (simp_all add: shared_def)

lemma yields_bind: "framed m \<Longrightarrow> (\<And>x. yields (f x)) \<Longrightarrow> yields (bind m f)"
  unfolding yields_def
proof (intro conjI allI impI)
  assume m: "framed m"
    and f: "\<And>x. framed (f x) \<and>
      (\<forall>\<sigma> q \<sigma>'. f x \<sigma> = (Ok q, \<sigma>') \<longrightarrow> newly_created \<sigma> \<sigma>' q \<or> q \<in> shared)"
  show "framed (bind m f)" using m f by (simp add: framed_bind)
  fix \<sigma> q \<sigma>'
  assume r: "bind m f \<sigma> = (Ok q, \<sigma>')"
  then obtain x \<sigma>1 where a: "m \<sigma> = (Ok x, \<sigma>1)" and b: "f x \<sigma>1 = (Ok q, \<sigma>')"
    by (auto simp: bind_def split: prod.splits result.splits)
  from m a have "nxt \<sigma> \<le> nxt \<sigma>1" by (auto simp: framed_def unchanged_def)
  moreover from f b have "newly_created \<sigma>1 \<sigma>' q \<or> q \<in> shared" by blast
  ultimately show "newly_created \<sigma> \<sigma>' q \<or> q \<in> shared" by (auto simp: newly_created_def)
qed

lemma yields_if: "yields m \<Longrightarrow> yields n \<Longrightarrow> yields (if c then m else n)"
  by simp

lemma yields_split: "(\<And>a b. yields (f a b)) \<Longrightarrow> yields (case p of (a, b) \<Rightarrow> f a b)"
  by (cases p) simp

lemma framed_isFinite: "framed (isFinite p)"
  unfolding isFinite_def by (intro framed_bind framed_numbers framed_split framed_ret)

lemma framed_isInfinite: "framed (isInfinite p)"
  unfolding isInfinite_def by (intro framed_bind framed_isFinite framed_ret)

lemma framed_isZero: "framed (isZero p)"
  unfolding isZero_def by (intro framed_bind framed_numbers framed_split framed_ret)

lemma framed_isNaN: "framed (isNaN p)"
  unfolding isNaN_def by (intro framed_bind framed_numbers framed_split framed_ret)

lemma framed_scale: "framed (scale v)"
  unfolding scale_def by (simp add: framed_ret framed_outside split: option.splits)

lemmas framed_intros = framed_bind framed_if framed_split framed_ret framed_parse
  framed_numbers framed_isNaN framed_isInfinite

lemmas yields_intros = yields_bind yields_if yields_split yields_mk yields_alloc yields_shared
  shared_simps framed_parse framed_numbers framed_isInfinite framed_isZero framed_scale

subsection \<open>The operations that return a value of the type\<close>

lemma yields_sign: "yields (sign this)"
  unfolding sign_def Let_def by (intro yields_intros)

lemma yields_add: "yields (add this a b)"
  unfolding add_def Let_def by (intro yields_intros)

lemma yields_sub: "yields (sub this a b)"
  unfolding sub_def Let_def by (intro yields_intros)

lemma yields_mul: "yields (mul this a b)"
  unfolding mul_def Let_def by (intro yields_intros)

lemma yields_div: "yields (div_m this a b)"
  unfolding div_m_def Let_def by (intro yields_intros)

lemma yields_pow: "yields (pow this a b)"
  unfolding pow_def Let_def by (intro yields_intros)

lemma yields_sqrt: "yields (sqrt_m this)"
  unfolding sqrt_m_def Let_def by (intro yields_intros)

lemma yields_exp: "yields (exp_m this)"
  unfolding exp_m_def Let_def by (intro yields_intros)

lemma yields_expm1: "yields (expm1 this)"
  unfolding expm1_def by (intro yields_intros)

lemma yields_log: "yields (log_m this)"
  unfolding log_m_def by (intro yields_intros)

lemma yields_sin: "yields (sin_m this)"
  unfolding sin_m_def by (intro yields_intros)

lemma yields_cos: "yields (cos_m this)"
  unfolding cos_m_def by (intro yields_intros)

lemma yields_tan: "yields (tan_m this)"
  unfolding tan_m_def Let_def by (intro yields_intros)

lemma yields_cot: "yields (cot_m this)"
  unfolding cot_m_def Let_def by (intro yields_intros)

lemma yields_sec: "yields (sec this)"
  unfolding sec_def Let_def by (intro yields_intros)

lemma yields_csc: "yields (csc this)"
  unfolding csc_def Let_def by (intro yields_intros)

lemmas framed_sqrt = yields_framed [OF yields_sqrt]
lemmas framed_log = yields_framed [OF yields_log]

lemma yields_asin: "yields (asin this)"
  unfolding asin_def by (intro yields_intros framed_mk framed_sqrt framed_log)

lemma yields_acos: "yields (acos this)"
  unfolding acos_def by (intro yields_intros framed_mk framed_sqrt framed_log)

lemma yields_atan: "yields (atan this)"
  unfolding atan_def Let_def by (intro yields_intros framed_mk framed_log)

lemma yields_reciprocal: "yields (reciprocal a b)"
  unfolding reciprocal_def Let_def by (intro yields_intros)

lemmas framed_reciprocal = yields_framed [OF yields_reciprocal]

lemma yields_acot: "yields (acot this)"
  unfolding acot_def by (intro yields_intros framed_reciprocal yields_atan)

lemma yields_asec: "yields (asec this)"
  unfolding asec_def by (intro yields_intros framed_reciprocal yields_acos)

lemma yields_acsc: "yields (acsc this)"
  unfolding acsc_def by (intro yields_intros framed_reciprocal yields_asin)

lemma yields_sinh: "yields (sinh_m this)"
  unfolding sinh_m_def by (intro yields_intros)

lemma yields_cosh: "yields (cosh_m this)"
  unfolding cosh_m_def by (intro yields_intros)

lemma yields_tanh: "yields (tanh_m this)"
  unfolding tanh_m_def Let_def by (intro yields_intros)

lemma yields_coth: "yields (coth this)"
  unfolding coth_def Let_def by (intro yields_intros)

lemma yields_csch: "yields (csch this)"
  unfolding csch_def Let_def by (intro yields_intros)

lemma yields_sech: "yields (sech this)"
  unfolding sech_def Let_def by (intro yields_intros)

lemma yields_asinh: "yields (asinh this)"
  unfolding asinh_def Let_def by (intro yields_intros framed_mk framed_sqrt yields_log)

lemma yields_acosh: "yields (acosh this)"
  unfolding acosh_def Let_def by (intro yields_intros framed_mk framed_sqrt yields_log)

lemma yields_atanh: "yields (atanh this)"
  unfolding atanh_def Let_def by (intro yields_intros)

lemma yields_acoth: "yields (acoth this)"
  unfolding acoth_def by (intro yields_intros framed_reciprocal yields_atanh)

lemma yields_acsch: "yields (acsch this)"
  unfolding acsch_def Let_def by (intro yields_intros framed_reciprocal yields_asinh)

lemma yields_asech: "yields (asech this)"
  unfolding asech_def by (intro yields_intros framed_reciprocal yields_acosh)

lemma yields_inverse: "yields (inverse_m this)"
  unfolding inverse_m_def Let_def by (intro yields_intros)

lemma yields_conjugate: "yields (conjugate this)"
  unfolding conjugate_def by (intro yields_intros)

lemma yields_neg: "yields (neg this)"
  unfolding neg_def by (intro yields_intros)

lemma yields_ceil: "yields (ceil this v)"
  unfolding ceil_def by (intro yields_intros)

lemma yields_floor: "yields (floor_m this v)"
  unfolding floor_m_def by (intro yields_intros)

lemma yields_round: "yields (round_m this v)"
  unfolding round_m_def by (intro yields_intros)

lemma yields_clone: "yields (clone this)"
  unfolding clone_def by (intro yields_intros)

lemma yields_toVector: "yields (toVector this)"
  unfolding toVector_def by (intro yields_intros)

lemma yields_Complex_new: "yields (Complex_new a b)"
  unfolding Complex_new_def by (intro yields_intros framed_fields)

subsection \<open>The operations that return a number, a truth value or a text\<close>

lemma framed_abs: "framed (abs_m this)"
  unfolding abs_m_def by (intro framed_intros)

lemma framed_arg: "framed (arg this)"
  unfolding arg_def by (intro framed_intros)

lemma framed_equals: "framed (equals this a b)"
  unfolding equals_def by (intro framed_intros)

lemma framed_toString: "framed (toString shw this)"
  unfolding toString_def Let_def by (intro framed_intros)

lemma framed_valueOf: "framed (valueOf this)"
  unfolding valueOf_def by (intro framed_intros)

lemma valueOf_no_reference: "fst (valueOf this \<sigma>) \<noteq> Ok (Ref q)"
  by (auto simp: valueOf_def bind_def numbers_def ret_def
      split: option.splits obj.splits jsval.splits)

lemma amended_as_ref: "yields m \<Longrightarrow> frame_amended \<sigma> (as_ref m \<sigma>)"
proof -
  assume y: "yields m"
  obtain r \<sigma>' where run: "m \<sigma> = (r, \<sigma>')" by (cases "m \<sigma>")
  from y run have u: "unchanged \<sigma> \<sigma>'" by (auto simp: yields_def framed_def)
  show ?thesis
  proof (cases r)
    case (Ok q)
    with y run have "newly_created \<sigma> \<sigma>' q \<or> q \<in> shared" by (auto simp: yields_def)
    with Ok run u show ?thesis by (simp add: frame_amended_def as_ref_def bind_def ret_def)
  next
    case (Throw e)
    with run u show ?thesis by (simp add: frame_amended_def as_ref_def bind_def)
  next
    case Outside
    with run u show ?thesis by (simp add: frame_amended_def as_ref_def bind_def)
  qed
qed

lemma amended_plain:
  assumes "framed m" and "\<And>q. fst (m \<sigma>) \<noteq> Ok (Ref q)"
  shows "frame_amended \<sigma> (m \<sigma>)"
  using assms by (cases "m \<sigma>") (auto simp: frame_amended_def framed_def)

lemma amended_as_num:
  assumes "framed m"
  shows "frame_amended \<sigma> (as_num m \<sigma>)"
proof (rule amended_plain)
  show "framed (as_num m)"
    unfolding as_num_def using assms by (intro framed_bind framed_ret)
  show "\<And>q. fst (as_num m \<sigma>) \<noteq> Ok (Ref q)"
    by (auto simp: as_num_def bind_def ret_def split: prod.splits result.splits)
qed

lemma amended_as_bool:
  assumes "framed m"
  shows "frame_amended \<sigma> (as_bool m \<sigma>)"
proof (rule amended_plain)
  show "framed (as_bool m)"
    unfolding as_bool_def using assms by (intro framed_bind framed_ret)
  show "\<And>q. fst (as_bool m \<sigma>) \<noteq> Ok (Ref q)"
    by (auto simp: as_bool_def bind_def ret_def split: prod.splits result.splits)
qed

lemma amended_as_str:
  assumes "framed m"
  shows "frame_amended \<sigma> (as_str m \<sigma>)"
proof (rule amended_plain)
  show "framed (as_str m)"
    unfolding as_str_def using assms by (intro framed_bind framed_ret)
  show "\<And>q. fst (as_str m \<sigma>) \<noteq> Ok (Ref q)"
    by (auto simp: as_str_def bind_def ret_def split: prod.splits result.splits)
qed

text \<open>
  C9, as the specification states it: false. The sum of one and the number
  \<open>Infinity\<close> is the constant \<open>INFINITY\<close> itself, an object that was there before the
  call, not a newly created value.
\<close>

theorem add_returns_constant:
  "\<not> frame_claimed init (call (\<lambda>x. []) M_add ONE_addr (Num PInf) Undefined init)
   \<and> fst (call (\<lambda>x. []) M_add ONE_addr (Num PInf) Undefined init) = Ok (Ref INFINITY_addr)
   \<and> INFINITY_addr < nxt init"
  by (simp add: frame_claimed_def newly_created_def as_ref_def add_def bind_def parse_def
      set_P_def isInfinite_def isFinite_def numbers_def ret_def init_heap init_nxt addr_defs)

lemma call_frame: "frame_amended \<sigma> (call shw m this a b \<sigma>)"
proof (cases m)
  case M_valueOf
  then show ?thesis
    by (simp add: amended_plain framed_valueOf valueOf_no_reference)
qed (simp_all add: amended_as_ref amended_as_num amended_as_bool amended_as_str
    yields_sign yields_add yields_sub yields_mul yields_div yields_pow yields_sqrt yields_exp
    yields_expm1 yields_log yields_sin yields_cos yields_tan yields_cot yields_sec yields_csc
    yields_asin yields_acos yields_atan yields_acot yields_asec yields_acsc yields_sinh
    yields_cosh yields_tanh yields_coth yields_csch yields_sech yields_asinh yields_acosh
    yields_atanh yields_acoth yields_acsch yields_asech yields_inverse yields_conjugate
    yields_neg yields_ceil yields_floor yields_round yields_clone yields_toVector
    framed_abs framed_arg framed_equals framed_toString framed_isNaN framed_isZero
    framed_isFinite framed_isInfinite)

text \<open>
  C9, amended. Every public operation, and the constructor, leaves every object that was
  in the store before the call as it was, the receiver and every \<open>Complex\<close> or record
  operand among them (the scratch record of the parser apart): no value is changed after
  its construction. The constructor returns a newly created value; a value of the type
  that an operation returns is either newly created or one of the constants \<open>NAN\<close>,
  \<open>INFINITY\<close>, \<open>ZERO\<close> and \<open>ONE\<close>.
\<close>

theorem operations_frame:
  "frame_amended \<sigma> (call shw m this a b \<sigma>)
   \<and> unchanged \<sigma> (snd (Complex_new a b \<sigma>))
   \<and> (\<forall>q. fst (Complex_new a b \<sigma>) = Ok q \<longrightarrow> newly_created \<sigma> (snd (Complex_new a b \<sigma>)) q)"
proof (intro conjI allI impI)
  show "frame_amended \<sigma> (call shw m this a b \<sigma>)" by (rule call_frame)
  obtain r \<sigma>' where run: "Complex_new a b \<sigma> = (r, \<sigma>')" by (cases "Complex_new a b \<sigma>")
  with yields_Complex_new [of a b] show "unchanged \<sigma> (snd (Complex_new a b \<sigma>))"
    by (auto simp: yields_def framed_def)
  fix q
  assume "fst (Complex_new a b \<sigma>) = Ok q"
  with Complex_new_ok [of a b \<sigma> q] run
  have "q = nxt \<sigma>" and "\<exists>x y. heap \<sigma>' q = Some (Cobj x y)" and "r = Ok q"
    by (auto simp: made_def)
  moreover from run \<open>r = Ok q\<close> have "nxt \<sigma>' = Suc (nxt \<sigma>)"
    by (auto simp: Complex_new_def bind_def fields_def alloc_def
        split: prod.splits result.splits option.splits obj.splits dest: parse_frame)
  ultimately show "newly_created \<sigma> (snd (Complex_new a b \<sigma>)) q"
    using run by (auto simp: newly_created_def)
qed

theorem operations_frame_witness:
  "frame_amended init (call (\<lambda>x. []) M_add ONE_addr (Num PInf) Undefined init)
   \<and> frame_amended init (call (\<lambda>x. []) M_mul I_addr (Ref I_addr) Undefined init)"
  using operations_frame [of init "\<lambda>x. []" M_add ONE_addr "Num PInf" Undefined]
    operations_frame [of init "\<lambda>x. []" M_mul I_addr "Ref I_addr" Undefined]
  by simp


end
